theory Spec2Isabelle
  imports Main
begin

section \<open>Python values used by the three generators\<close>

text \<open>
  The repository holds three scripts that read the tables \<^verbatim>\<open>objects.csv\<close>,
  \<^verbatim>\<open>fields.csv\<close> and \<^verbatim>\<open>enum_values.csv\<close> and write HTML pages:
  \<^verbatim>\<open>obsolete/generate_hierarchy.py\<close> (nested boxes),
  \<^verbatim>\<open>standalone/generate_html.py\<close> (two standalone pages) and
  \<^verbatim>\<open>obsolete/generate_html_wp.py\<close> (two fragments). Each function is modelled
  under its own name; the two functions named \<^verbatim>\<open>generate_json_html\<close> and
  \<^verbatim>\<open>generate_csv_html\<close> of the last script carry the suffix \<open>_wp\<close>, and a
  loop or an expression that the source writes inline has a definition named after the
  variable it computes.

  Every table row is what \<^verbatim>\<open>csv.DictReader\<close> yields: a dictionary from column
  names to strings. A column that the header does not have is a missing key; every
  value is a string (a row with fewer or more cells than the header, for which the
  reader stores \<^verbatim>\<open>None\<close> or a list, is outside the model). Characters are code
  points below 256, which covers every literal of the three scripts. A recursion that
  does not return has no result; the recursion limit of the interpreter, which ends
  such a recursion and would also end a very deep acyclic one, is not modelled.
\<close>

type_synonym row = "string \<rightharpoonup> string"

datatype error = KeyError string | FileNotFoundError string | RecursionError

text \<open>\<^verbatim>\<open>d.get(k, "")\<close>: the default is the empty string.\<close>

definition dict_get :: "row \<Rightarrow> string \<Rightarrow> string" where
  "dict_get d k = (case d k of None \<Rightarrow> [] | Some v \<Rightarrow> v)"

text \<open>\<^verbatim>\<open>d[k]\<close>: a missing key raises \<^verbatim>\<open>KeyError\<close>.\<close>

definition getitem :: "(string \<rightharpoonup> 'v) \<Rightarrow> string \<Rightarrow> error + 'v" where
  "getitem d k = (case d k of None \<Rightarrow> Inl (KeyError k) | Some v \<Rightarrow> Inr v)"

text \<open>Sequencing of statements that may raise: the first exception wins.\<close>

definition and_then :: "error + 'a \<Rightarrow> ('a \<Rightarrow> error + 'b) \<Rightarrow> error + 'b" where
  "and_then r f = (case r of Inl e \<Rightarrow> Inl e | Inr v \<Rightarrow> f v)"

text \<open>\<^verbatim>\<open>[g(x) for x in xs]\<close> where \<^verbatim>\<open>g\<close> may raise.\<close>

fun collect :: "('a \<Rightarrow> error + 'b) \<Rightarrow> 'a list \<Rightarrow> error + 'b list" where
  "collect g [] = Inr []"
| "collect g (x # xs) = and_then (g x) (\<lambda>y. and_then (collect g xs) (\<lambda>ys. Inr (y # ys)))"

text \<open>\<^verbatim>\<open>s.endswith(suf)\<close>, and the slice \<^verbatim>\<open>ftype[:-2]\<close> taken when it holds.\<close>

definition endswith :: "string \<Rightarrow> string \<Rightarrow> bool" where
  "endswith s suf = (length suf \<le> length s \<and> drop (length s - length suf) s = suf)"

definition is_array_of :: "string \<Rightarrow> bool" where
  "is_array_of ftype = endswith ftype ''[]''"

definition base_type_of :: "string \<Rightarrow> string" where
  "base_type_of ftype = (if is_array_of ftype then take (length ftype - 2) ftype else ftype)"

text \<open>\<^verbatim>\<open>sep.join(xs)\<close>.\<close>

fun join :: "string \<Rightarrow> string list \<Rightarrow> string" where
  "join sep [] = []"
| "join sep [x] = x"
| "join sep (x # y # ys) = x @ sep @ join sep (y # ys)"

text \<open>
  \<^verbatim>\<open>s.replace(old, new)\<close> for a one-character \<^verbatim>\<open>old\<close>, the only use the
  scripts make of it.
\<close>

definition replace :: "char \<Rightarrow> string \<Rightarrow> string \<Rightarrow> string" where
  "replace old new s = concat (map (\<lambda>c. if c = old then new else [c]) s)"

text \<open>
  \<^verbatim>\<open>html.escape(s)\<close> of the standard library (with its default \<^verbatim>\<open>quote=True\<close>):
  five replacements, the ampersand first.
\<close>

definition escape :: "string \<Rightarrow> string" where
  "escape s =
     replace (CHR 0x27) ''&#x27;''
       (replace (CHR 0x22) ''&quot;''
         (replace CHR ''>'' ''&gt;''
           (replace CHR ''<'' ''&lt;''
             (replace CHR ''&'' ''&amp;'' s))))"

text \<open>
  \<^verbatim>\<open>s.lower()\<close> on code points below 256: the ASCII capitals and the Latin-1
  capitals (all of 0xC0 .. 0xDE but the multiplication sign) move up by 32.
\<close>

definition lower_char :: "char \<Rightarrow> char" where
  "lower_char c =
     (let n = of_char c :: nat
      in if (65 \<le> n \<and> n \<le> 90) \<or> (192 \<le> n \<and> n \<le> 222 \<and> n \<noteq> 215)
         then char_of (n + 32) else c)"

definition lower :: "string \<Rightarrow> string" where
  "lower s = map lower_char s"

text \<open>
  A dictionary of lists filled by \<^verbatim>\<open>if k not in m: m[k] = []\<close> followed by
  \<^verbatim>\<open>m[k].append(x)\<close>, or by \<^verbatim>\<open>m[k].append(x)\<close> on a
  \<^verbatim>\<open>defaultdict(list)\<close>; \<open>entries\<close> is \<^verbatim>\<open>m.get(k, [])\<close>.
\<close>

definition entries :: "('k \<rightharpoonup> 'v list) \<Rightarrow> 'k \<Rightarrow> 'v list" where
  "entries m k = (case m k of None \<Rightarrow> [] | Some l \<Rightarrow> l)"

definition append_to :: "('k \<rightharpoonup> 'v list) \<Rightarrow> 'k \<Rightarrow> 'v \<Rightarrow> ('k \<rightharpoonup> 'v list)" where
  "append_to m k x = m(k \<mapsto> entries m k @ [x])"

text \<open>
  A list comprehension whose element expression is a call that may not return: the
  results in order, or no result as soon as one call has none.
\<close>

primrec traverse :: "('a \<Rightarrow> 'b option) \<Rightarrow> 'a list \<Rightarrow> 'b list option" where
  "traverse g [] = Some []"
| "traverse g (x # xs) =
     Option.bind (g x) (\<lambda>y. Option.bind (traverse g xs) (\<lambda>ys. Some (y # ys)))"

text \<open>
  The two recursive functions below call themselves under \<open>traverse\<close> and
  \<open>Option.bind\<close>; their definitions need \<open>traverse\<close> to be monotone in the
  function it applies.
\<close>

lemma traverse_mono [partial_function_mono]:
  assumes "\<And>x. mono_option (\<lambda>f. g f x)"
  shows "mono_option (\<lambda>f. traverse (g f) xs)"
proof (induction xs)
  case Nil
  show ?case by (simp add: option.const_mono)
next
  case (Cons x xs)
  show ?case
    unfolding traverse.simps
    by (intro bind_mono assms Cons.IH option.const_mono)
qed

section \<open>The loaders\<close>

text \<open>
  The directory of the script, as far as the loaders see it: a file name is absent or
  holds the rows that \<^verbatim>\<open>csv.DictReader\<close> reads from it, in file order.
\<close>

type_synonym filesystem = "string \<rightharpoonup> row list"

text \<open>
  \<^verbatim>\<open>load_csv\<close> of \<^verbatim>\<open>standalone/generate_html.py\<close> and of
  \<^verbatim>\<open>obsolete/generate_html_wp.py\<close> (the two are the same text): the lines printed,
  and the rows returned.
\<close>

definition load_csv :: "filesystem \<Rightarrow> string \<Rightarrow> string list \<times> row list" where
  "load_csv fs filename =
     (case fs filename of
        None \<Rightarrow> ([''Warning: '' @ filename @ '' not found''], [])
      | Some rows \<Rightarrow> ([], rows))"

text \<open>\<^verbatim>\<open>load_all_data\<close> of both scripts: the lines printed and the dictionary returned.\<close>

definition load_all_data :: "filesystem \<Rightarrow> string list \<times> (string \<rightharpoonup> row list)" where
  "load_all_data fs =
     (let objects = load_csv fs ''objects.csv'';
          fields = load_csv fs ''fields.csv'';
          enum_values = load_csv fs ''enum_values.csv''
      in (fst objects @ fst fields @ fst enum_values,
          [''objects'' \<mapsto> snd objects, ''fields'' \<mapsto> snd fields,
           ''enum_values'' \<mapsto> snd enum_values]))"

text \<open>
  \<^verbatim>\<open>load_csv\<close> of \<^verbatim>\<open>obsolete/generate_hierarchy.py\<close>: it opens the file without
  looking whether it exists, so \<^verbatim>\<open>open\<close> raises on an absent file.
\<close>

definition load_csv_hierarchy :: "filesystem \<Rightarrow> string \<Rightarrow> error + row list" where
  "load_csv_hierarchy fs filename =
     (case fs filename of
        None \<Rightarrow> Inl (FileNotFoundError filename)
      | Some rows \<Rightarrow> Inr rows)"

section \<open>The nested-box generator: \<^verbatim>\<open>generate_hierarchy.py\<close>\<close>

subsection \<open>\<^verbatim>\<open>build_tree\<close>\<close>

type_synonym children_map = "string \<rightharpoonup> (string \<times> string \<times> bool) list"
type_synonym primitives_map = "string \<rightharpoonup> (string \<times> string \<times> string) list"

text \<open>\<^verbatim>\<open>{obj["name"] for obj in objects}\<close>.\<close>

definition object_names_of :: "row list \<Rightarrow> error + string set" where
  "object_names_of objects =
     and_then (collect (\<lambda>obj. getitem obj ''name'') objects) (\<lambda>names. Inr (set names))"

text \<open>\<^verbatim>\<open>{obj["name"]: obj["description"] for obj in objects}\<close>: a later row wins.\<close>

fun object_desc_of :: "row list \<Rightarrow> (string \<rightharpoonup> string) \<Rightarrow> error + (string \<rightharpoonup> string)" where
  "object_desc_of [] m = Inr m"
| "object_desc_of (obj # objects) m =
     and_then (getitem obj ''name'') (\<lambda>name.
     and_then (getitem obj ''description'') (\<lambda>description.
       object_desc_of objects (m(name \<mapsto> description))))"

text \<open>The loop that groups the \<^verbatim>\<open>value\<close> column by enum name.\<close>

fun values_by_enum_of :: "row list \<Rightarrow> (string \<rightharpoonup> string list) \<Rightarrow> (string \<rightharpoonup> string list)" where
  "values_by_enum_of [] m = m"
| "values_by_enum_of (val # enum_values) m =
     values_by_enum_of enum_values (append_to m (dict_get val ''enum'') (dict_get val ''value''))"

text \<open>The display type of a primitive field (lines 56 to 63).\<close>

definition type_display_of :: "(string \<rightharpoonup> string list) \<Rightarrow> string \<Rightarrow> string" where
  "type_display_of values_by_enum base_type =
     (case values_by_enum base_type of
        Some vs \<Rightarrow> join '', '' vs
      | None \<Rightarrow>
          if base_type = ''boolean'' then ''true, false''
          else if base_type = ''datetime'' then ''ISO 8601 DateTime''
          else base_type)"

text \<open>One pass of the loop over \<^verbatim>\<open>fields\<close> (lines 37 to 67).\<close>

definition field_step ::
  "string set \<Rightarrow> (string \<rightharpoonup> string list) \<Rightarrow> row \<Rightarrow> children_map \<times> primitives_map
     \<Rightarrow> error + children_map \<times> primitives_map" where
  "field_step object_names values_by_enum field st =
     and_then (getitem field ''type'') (\<lambda>ftype.
     and_then (getitem field ''json_name'') (\<lambda>fname.
     and_then (getitem field ''object'') (\<lambda>parent.
     and_then (getitem field ''description'') (\<lambda>fdesc.
       if fname = [] then Inr st
       else
         let is_array = is_array_of ftype;
             base_type = base_type_of ftype
         in if base_type \<in> object_names
            then Inr (append_to (fst st) parent (fname, base_type, is_array), snd st)
            else Inr (fst st,
                   append_to (snd st) parent
                     (fname, type_display_of values_by_enum base_type, fdesc))))))"

fun field_loop ::
  "string set \<Rightarrow> (string \<rightharpoonup> string list) \<Rightarrow> row list \<Rightarrow> children_map \<times> primitives_map
     \<Rightarrow> error + children_map \<times> primitives_map" where
  "field_loop object_names values_by_enum [] st = Inr st"
| "field_loop object_names values_by_enum (field # fields) st =
     and_then (field_step object_names values_by_enum field st)
       (field_loop object_names values_by_enum fields)"

text \<open>
  The merge of lines 70 to 72, which both other generators apply to their
  \<^verbatim>\<open>fields_by_object\<close> in the same words: when both keys are present, the list of
  \<^verbatim>\<open>Location\<close> is appended to the list of \<^verbatim>\<open>Site\<close> and the key
  \<^verbatim>\<open>Location\<close> is deleted.
\<close>

definition merge_location :: "(string \<rightharpoonup> 'v list) \<Rightarrow> (string \<rightharpoonup> 'v list)" where
  "merge_location m =
     (case (m ''Location'', m ''Site'') of
        (Some loc, Some site) \<Rightarrow> (m(''Site'' \<mapsto> site @ loc))(''Location'' := None)
      | _ \<Rightarrow> m)"

text \<open>
  The body of \<^verbatim>\<open>build_tree\<close> after its three loads (lines 21 to 74), as a
  function of the rows loaded.
\<close>

definition resolve ::
  "row list \<Rightarrow> row list \<Rightarrow> row list
     \<Rightarrow> error + children_map \<times> primitives_map \<times> (string \<rightharpoonup> string)" where
  "resolve fields objects enum_values =
     and_then (object_names_of objects) (\<lambda>object_names.
     and_then (object_desc_of objects Map.empty) (\<lambda>object_desc.
     and_then (field_loop object_names (values_by_enum_of enum_values Map.empty) fields
                 (Map.empty, Map.empty)) (\<lambda>st.
       Inr (fst st, merge_location (snd st), object_desc))))"

definition build_tree ::
  "filesystem \<Rightarrow> error + children_map \<times> primitives_map \<times> (string \<rightharpoonup> string)" where
  "build_tree fs =
     and_then (load_csv_hierarchy fs ''fields.csv'') (\<lambda>fields.
     and_then (load_csv_hierarchy fs ''objects.csv'') (\<lambda>objects.
     and_then (load_csv_hierarchy fs ''enum_values.csv'') (\<lambda>enum_values.
       resolve fields objects enum_values)))"

subsection \<open>\<^verbatim>\<open>generate_html\<close> and its \<^verbatim>\<open>render_node\<close>\<close>

definition colors :: "string list" where
  "colors = [''#e8f5e9'', ''#fff3e0'', ''#e3f2fd'', ''#fce4ec'',
             ''#f3e5f5'', ''#e0f7fa'', ''#fff8e1'', ''#efebe9'']"

definition border_colors :: "string list" where
  "border_colors = [''#4caf50'', ''#ff9800'', ''#2196f3'', ''#e91e63'',
                    ''#9c27b0'', ''#00bcd4'', ''#ffc107'', ''#795548'']"

definition escape_html :: "string \<Rightarrow> string" where
  "escape_html text =
     replace (CHR 0x22) ''&quot;''
       (replace CHR ''>'' ''&gt;''
         (replace CHR ''<'' ''&lt;''
           (replace CHR ''&'' ''&amp;'' text)))"

text \<open>The table of primitive fields of a node (lines 116 to 125).\<close>

definition fields_html_of :: "primitives_map \<Rightarrow> string \<Rightarrow> string" where
  \<open>fields_html_of primitives obj_name =
     (case primitives obj_name of
        None \<Rightarrow> []
      | Some ps \<Rightarrow>
          ''<table class="fields">''
          @ concat (map (\<lambda>(fname, ftype, fdesc).
                ''<tr><td class="pfield-name">'' @ escape_html fname @ ''</td>''
                @ ''<td class="pfield-type">'' @ escape_html ftype @ ''</td>''
                @ ''<td class="pfield-desc">'' @ escape_html fdesc @ ''</td></tr>'') ps)
          @ ''</table>'')\<close>

text \<open>The text a node returns around its parts (lines 135 to 143).\<close>

definition node_html ::
  "string \<Rightarrow> string \<Rightarrow> string \<Rightarrow> string \<Rightarrow> string \<Rightarrow> string \<Rightarrow> string \<Rightarrow> string" where
  \<open>node_html color border label obj_name desc fields_html child_html =
     ''<div class="node" style="background: '' @ color @ ''; border-color: '' @ border @ '';">
            <div class="header">
                <span class="field-name">'' @ label @ ''</span>
                <span class="type-name">'' @ obj_name @ ''</span>
            </div>
            ''
     @ (if desc \<noteq> [] then ''<div class="desc">'' @ escape_html desc @ ''</div>'' else [])
     @ ''
            '' @ fields_html @ ''
            '' @ child_html @ ''
        </div>''\<close>

text \<open>
  \<^verbatim>\<open>render_node\<close> calls itself for every child reference and has no guard against
  a cycle of references: no result stands for a recursion that never returns (which
  the interpreter ends with \<^verbatim>\<open>RecursionError\<close>).
\<close>

partial_function (option) render_node ::
  "children_map \<Rightarrow> primitives_map \<Rightarrow> (string \<rightharpoonup> string) \<Rightarrow> string \<Rightarrow> string option \<Rightarrow> bool \<Rightarrow> nat
     \<Rightarrow> string option" where
  \<open>render_node children primitives descriptions obj_name field_name is_array depth =
     Option.bind
       (case children obj_name of
          None \<Rightarrow> Some []
        | Some cs \<Rightarrow>
            Option.bind
              (traverse (\<lambda>(child_field, child_type, child_is_array).
                   render_node children primitives descriptions
                     child_type (Some child_field) child_is_array (depth + 1)) cs)
              (\<lambda>child_items. Some (''<div class="children">'' @ concat child_items @ ''</div>'')))
       (\<lambda>child_html.
          Some (node_html
            (colors ! (depth mod length colors))
            (border_colors ! (depth mod length border_colors))
            ((case field_name of
                None \<Rightarrow> obj_name
              | Some n \<Rightarrow> if n = [] then obj_name else n)
             @ (if is_array then ''[]'' else []))
            obj_name
            (dict_get descriptions obj_name)
            (fields_html_of primitives obj_name)
            child_html))\<close>

text \<open>The equation is used as it stands to evaluate the function on concrete tables.\<close>

declare render_node.simps [code]

text \<open>The page that \<^verbatim>\<open>generate_html\<close> returns around the tree (lines 148 to 280).\<close>

definition hierarchy_page :: "string \<Rightarrow> string" where
  \<open>hierarchy_page tree_html =
     ''<!DOCTYPE html>
<html lang="en">
<head>
    <meta charset="UTF-8">
    <meta name="viewport" content="width=device-width, initial-scale=1.0">
    <link rel="stylesheet" href="https://fonts.googleapis.com/css?family=Roboto:400,500,600&display=swap">
    <title>LandPKS JSON Export Hierarchy</title>
    <style>
        * { box-sizing: border-box; }
        body {
            font-family: Roboto, sans-serif;
            background: #f5f5f5;
            margin: 0;
            padding: 20px;
        }
        h1 {
            color: #2c5530;
            margin-bottom: 20px;
        }
        .container {
            max-width: 1400px;
            margin: 0 auto;
        }
        .node {
            border: 2px solid;
            border-radius: 8px;
            padding: 12px;
            margin: 8px 0;
        }
        .header {
            display: flex;
            justify-content: space-between;
            align-items: center;
            margin-bottom: 4px;
        }
        .field-name {
            font-weight: 600;
            font-size: 1em;
            color: #333;
        }
        .type-name {
            font-size: 0.85em;
            color: #666;
            font-style: italic;
        }
        .desc {
            font-size: 0.8em;
            color: #555;
            margin-bottom: 8px;
            padding: 4px 8px;
        }
        .children {
            display: flex;
            flex-wrap: wrap;
            gap: 8px;
            margin-top: 8px;
        }
        .children > .node {
            flex: 1 1 auto;
            min-width: 200px;
        }
        /* Collapse deeply nested to vertical */
        .children .children .children {
            flex-direction: column;
        }
        .children .children .children > .node {
            min-width: unset;
        }
        .legend {
            background: white;
            border: 1px solid #ddd;
            border-radius: 8px;
            padding: 15px;
            margin-bottom: 20px;
        }
        .legend-title {
            font-weight: 600;
            margin-bottom: 8px;
        }
        .legend-item {
            display: inline-block;
            margin-right: 15px;
            font-size: 0.9em;
        }
        .legend-item code {
            background: #eee;
            padding: 2px 6px;
            border-radius: 3px;
        }
        .fields {
            width: 100%;
            border-collapse: collapse;
            font-size: 0.8em;
            margin: 8px 0;
        }
        .fields td {
            padding: 4px 8px;
            border-bottom: 1px solid rgba(0,0,0,0.1);
            vertical-align: top;
        }
        .fields tr:last-child td {
            border-bottom: none;
        }
        .pfield-name {
            font-weight: 500;
            color: #333;
            white-space: nowrap;
            width: 20%;
        }
        .pfield-type {
            color: #666;
            font-style: italic;
            width: 20%;
        }
        .pfield-desc {
            color: #555;
            width: 60%;
        }
    </style>
</head>
<body>
    <div class="container">
        <h1>LandPKS JSON Export Hierarchy</h1>
        <div class="legend">
            <div class="legend-title">Legend</div>
            <span class="legend-item"><code>field_name</code> - JSON field name</span>
            <span class="legend-item"><em>TypeName</em> - Object type</span>
            <span class="legend-item"><code>[]</code> - Array field</span>
        </div>
        ''
  @ tree_html
  @ ''
    </div>
</body>
</html>''\<close>

definition generate_html ::
  "children_map \<Rightarrow> primitives_map \<Rightarrow> (string \<rightharpoonup> string) \<Rightarrow> error + string" where
  "generate_html children primitives descriptions =
     (case render_node children primitives descriptions ''Site'' (Some ''sites'') True 0 of
        None \<Rightarrow> Inl RecursionError
      | Some tree_html \<Rightarrow> Inr (hierarchy_page tree_html))"

text \<open>\<^verbatim>\<open>main\<close>, up to the write of the file: the text it would write.\<close>

definition main_hierarchy :: "filesystem \<Rightarrow> error + string" where
  "main_hierarchy fs =
     and_then (build_tree fs) (\<lambda>(children, primitives, descriptions).
       generate_html children primitives descriptions)"

section \<open>The sectioned-reference generators: \<^verbatim>\<open>generate_html.py\<close> and \<^verbatim>\<open>generate_html_wp.py\<close>\<close>

subsection \<open>What the two scripts share word for word\<close>

text \<open>
  The loops that fill \<^verbatim>\<open>fields_by_object\<close> (by the column \<^verbatim>\<open>object\<close>) and
  \<^verbatim>\<open>values_by_enum\<close> (by the column \<^verbatim>\<open>enum\<close>), both a
  \<^verbatim>\<open>defaultdict(list)\<close> of rows.
\<close>

fun group_rows :: "string \<Rightarrow> row list \<Rightarrow> (string \<rightharpoonup> row list) \<Rightarrow> (string \<rightharpoonup> row list)" where
  "group_rows key [] m = m"
| "group_rows key (r # rs) m = group_rows key rs (append_to m (dict_get r key) r)"

text \<open>The loop that fills \<^verbatim>\<open>parent_map\<close>: a later reference to a type wins.\<close>

fun parent_map_of ::
  "string set \<Rightarrow> row list \<Rightarrow> (string \<rightharpoonup> string \<times> string \<times> bool)
     \<Rightarrow> (string \<rightharpoonup> string \<times> string \<times> bool)" where
  "parent_map_of object_names [] m = m"
| "parent_map_of object_names (field # fields) m =
     (let ftype = dict_get field ''type'';
          fname = dict_get field ''json_name'';
          parent_obj = dict_get field ''object''
      in if fname = [] then parent_map_of object_names fields m
         else
           let is_array = is_array_of ftype;
               base_type = base_type_of ftype
           in if base_type \<in> object_names
              then parent_map_of object_names fields (m(base_type \<mapsto> (parent_obj, fname, is_array)))
              else parent_map_of object_names fields m)"

text \<open>
  \<^verbatim>\<open>compute_json_path\<close> walks \<^verbatim>\<open>parent_map\<close> upward with no guard against a
  cycle; no result stands for a walk that never returns.
\<close>

partial_function (option) compute_json_path ::
  "(string \<rightharpoonup> string \<times> string \<times> bool) \<Rightarrow> string \<Rightarrow> string option" where
  "compute_json_path parent_map obj_name =
     (if obj_name = ''Site'' \<or> obj_name = ''Location'' then Some ''sites[]''
      else case parent_map obj_name of
             None \<Rightarrow> Some []
           | Some (parent_obj, field_name, is_array) \<Rightarrow>
               Option.bind (compute_json_path parent_map parent_obj) (\<lambda>parent_path.
                 Some (parent_path @ ''.'' @ field_name @ (if is_array then ''[]'' else []))))"

text \<open>The equation is used as it stands to evaluate the function on concrete tables.\<close>

declare compute_json_path.simps [code]

text \<open>\<^verbatim>\<open>bool(f.get("json_name"))\<close>, and the same test on \<^verbatim>\<open>csv_column\<close>.\<close>

definition is_json_field :: "row \<Rightarrow> bool" where
  "is_json_field f = (case f ''json_name'' of None \<Rightarrow> False | Some v \<Rightarrow> v \<noteq> [])"

definition is_csv_field :: "row \<Rightarrow> bool" where
  "is_csv_field f = (case f ''csv_column'' of None \<Rightarrow> False | Some v \<Rightarrow> v \<noteq> [])"

text \<open>\<^verbatim>\<open>[f for f in fields_by_object.get(name, []) if is_json_field(f)]\<close>.\<close>

definition obj_fields_of :: "(string \<rightharpoonup> row list) \<Rightarrow> string \<Rightarrow> row list" where
  "obj_fields_of fields_by_object name = filter is_json_field (entries fields_by_object name)"

text \<open>The loop that selects \<^verbatim>\<open>json_objects\<close>.\<close>

definition json_objects_of :: "(string \<rightharpoonup> row list) \<Rightarrow> row list \<Rightarrow> row list" where
  "json_objects_of fields_by_object objects =
     filter (\<lambda>obj. dict_get obj ''name'' \<noteq> ''Location''
                  \<and> obj_fields_of fields_by_object (dict_get obj ''name'') \<noteq> []) objects"

definition nav_items_of :: "row list \<Rightarrow> string list" where
  \<open>nav_items_of json_objects =
     ''<a href="#overview">Overview</a>''
     # map (\<lambda>obj. let name = dict_get obj ''name''
                  in ''<a href="#obj-'' @ lower name @ ''">'' @ name @ ''</a>'') json_objects\<close>

definition link :: "string \<Rightarrow> string \<Rightarrow> bool \<Rightarrow> string" where
  \<open>link name obj is_array =
     ''<a href="#obj-'' @ lower obj @ ''">'' @ name @ (if is_array then ''[]'' else []) @ ''</a>''\<close>

text \<open>The hand-written hierarchy of the overview (lines 302 to 320; the same text in \<^verbatim>\<open>generate_html_wp.py\<close>, lines 170 to 188).\<close>

definition structure_html :: "string" where
  \<open>structure_html =
     link ''sites'' ''Site'' True
  @ ''
  ''
  @ link ''project'' ''Project'' False
  @ ''
    ''
  @ link ''soilSettings'' ''SoilSettings'' False
  @ ''
      ''
  @ link ''depthIntervals'' ''ProjectDepthInterval'' True
  @ ''
  ''
  @ link ''soilData'' ''SoilData'' False
  @ ''
    ''
  @ link ''_depthIntervals'' ''DepthInterval'' True
  @ ''
  ''
  @ link ''notes'' ''Note'' True
  @ ''
    ''
  @ link ''author'' ''Author'' False
  @ ''
  ''
  @ link ''soil_id'' ''SoilMatches'' False
  @ ''
    ''
  @ link ''matches'' ''SoilMatch'' True
  @ ''
      ''
  @ link ''combinedMatch'' ''MatchScore'' False
  @ ''
      ''
  @ link ''dataMatch'' ''MatchScore'' False
  @ ''
      ''
  @ link ''locationMatch'' ''MatchScore'' False
  @ ''
      ''
  @ link ''soilInfo'' ''SoilInfo'' False
  @ ''
        ''
  @ link ''soilSeries'' ''SoilSeries'' False
  @ ''
        ''
  @ link ''ecologicalSite'' ''EcologicalSite'' False
  @ ''
        ''
  @ link ''landCapabilityClass'' ''LandCapabilityClass'' False
  @ ''
        ''
  @ link ''soilData'' ''MatchSoilData'' False
  @ ''
          ''
  @ link ''depthDependentData'' ''MatchDepthData'' True\<close>

text \<open>The field name cell (the same in both scripts).\<close>

definition fname_html_of :: "row \<Rightarrow> string" where
  \<open>fname_html_of f =
     (if is_array_of (dict_get f ''type'')
      then ''<code>'' @ escape (dict_get f ''json_name'') @ ''[]</code>''
      else ''<code>'' @ escape (dict_get f ''json_name'') @ ''</code>'')\<close>

text \<open>The hand-declared sections of the CSV pages, with their display names.\<close>

definition sections :: "(string \<times> string) list" where
  "sections =
     [(''Site'', ''Site''),
      (''Project'', ''Project''),
      (''Location'', ''Location''),
      (''SoilMatches'', ''Soil Matches''),
      (''EcologicalSite'', ''Ecological Site''),
      (''SoilData'', ''Soil Data''),
      (''DepthInterval'', ''Depth Intervals'')]"

subsection \<open>\<^verbatim>\<open>generate_json_html\<close> of \<^verbatim>\<open>standalone/generate_html.py\<close>\<close>

text \<open>The module constant \<^verbatim>\<open>HTML_STYLES\<close> of \<^verbatim>\<open>generate_html.py\<close>.\<close>

definition HTML_STYLES :: "string" where
  \<open>HTML_STYLES =
     ''
    <style>
        :root {
            --primary-color: #2c5530;
            --secondary-color: #4a7c4e;
            --bg-color: #ffffff;
            --card-bg: #c7c7c7;
            --border-color: #808080;
            --text-color: #333;
            --text-muted: #666;
            --code-bg: rgba(0, 0, 0, 0);
        }

        * { box-sizing: border-box; }

        body {
            font-family: Roboto, sans-serif;
            line-height: 1.6;
            color: var(--text-color);
            background: var(--bg-color);
            margin: 0;
            padding: 0;
        }

        .container {
            max-width: 1100px;
            margin: 0 auto;
            padding: 20px;
        }

        header {
            background: var(--primary-color);
            color: white;
            padding: 30px 20px;
            margin-bottom: 30px;
        }

        header h1 {
            margin: 0 0 10px 0;
            font-size: 2em;
        }

        header p {
            margin: 0;
            opacity: 0.9;
        }

        nav {
            background: var(--card-bg);
            border: 1px solid var(--border-color);
            border-radius: 8px;
            padding: 15px 20px;
            margin-bottom: 25px;
        }

        nav a {
            display: inline-block;
            padding: 6px 14px;
            margin: 3px;
            background: var(--code-bg);
            border-radius: 4px;
            text-decoration: none;
            color: var(--text-color);
            font-size: 0.9em;
        }

        nav a:hover {
            background: var(--secondary-color);
            color: white;
        }

        section {
            background: var(--card-bg);
            border: 1px solid var(--border-color);
            border-radius: 8px;
            padding: 25px;
            margin-bottom: 25px;
        }

        h2 {
            color: var(--primary-color);
            border-bottom: 2px solid var(--primary-color);
            padding-bottom: 8px;
            margin-top: 0;
            font-size: 1.4em;
        }

        h3 {
            color: var(--secondary-color);
            margin-top: 25px;
            font-size: 1.1em;
        }

        table {
            width: 100%;
            border-collapse: collapse;
            margin: 15px 0;
            font-size: 0.9em;
            table-layout: fixed;
        }

        th, td {
            padding: 10px 12px;
            text-align: left;
            border-bottom: 1px solid var(--border-color);
            vertical-align: top;
            overflow-wrap: break-word;
            word-wrap: break-word;
        }

        th {
            background: var(--code-bg);
            font-weight: 600;
            color: var(--primary-color);
            white-space: nowrap;
        }

        tr:hover { background: var(--bg-color); }

        code {
            background: var(--code-bg);
            padding: 2px 6px;
            border-radius: 3px;
            font-family: "SF Mono", Monaco, "Courier New", monospace;
            font-size: 0.85em;
        }

        td:first-child code {
            display: block;
        }

        .type { color: var(--secondary-color); }
        .enum-link { color: #9933cc; }

        .badge {
            display: inline-block;
            padding: 2px 6px;
            border-radius: 10px;
            font-size: 0.75em;
            font-weight: 500;
            margin-left: 5px;
        }

        .badge-required { background: #ffe0e0; color: #cc0000; }
        .badge-derived { background: #e0e0ff; color: #0000cc; }

        .description {
            color: var(--text-muted);
            margin-bottom: 15px;
        }

        .muted { color: var(--text-muted); }

        footer {
            text-align: center;
            padding: 20px;
            color: var(--text-muted);
            font-size: 0.85em;
        }

        footer a { color: var(--secondary-color); }
    </style>
''\<close>

text \<open>The type cell of a field row (lines 365 to 377).\<close>

definition type_html_json :: "(string \<rightharpoonup> row list) \<Rightarrow> string set \<Rightarrow> string \<Rightarrow> string" where
  \<open>type_html_json values_by_enum object_names base_type =
     (case values_by_enum base_type of
        Some enum_vals \<Rightarrow> join '', '' (map (\<lambda>v. escape (dict_get v ''value'')) enum_vals)
      | None \<Rightarrow>
          if base_type = ''boolean'' then ''<span class="type">true, false</span>''
          else if base_type = ''datetime'' then ''<span class="type">ISO 8601 DateTime</span>''
          else if base_type \<in> object_names
          then ''<a href="#obj-'' @ lower base_type @ ''">'' @ escape base_type @ ''</a>''
          else ''<span class="type">'' @ escape base_type @ ''</span>'')\<close>

text \<open>The three strings a field row appends to \<^verbatim>\<open>content\<close> (lines 349 to 381).\<close>

definition field_row_json :: "(string \<rightharpoonup> row list) \<Rightarrow> string set \<Rightarrow> row \<Rightarrow> string list" where
  \<open>field_row_json values_by_enum object_names f =
     [''<tr><td>'' @ fname_html_of f @ ''</td>'',
      ''<td>'' @ type_html_json values_by_enum object_names (base_type_of (dict_get f ''type'')) @ ''</td>'',
      ''<td>'' @ escape (dict_get f ''description'') @ ''</td></tr>'']\<close>

definition overview_json :: "string list" where
  \<open>overview_json =
     [''<section id="overview">'',
      ''<h2>Overview</h2>'',
      ''<p>The export API returns site data in JSON format with the following structure. Click on field names to jump to their documentation.</p>'',
      ''<pre><code>'' @ structure_html @ ''</code></pre>'',
      ''<p>Fields starting with <code>_</code> are derived fields expanded by the export for convenience.</p>'',
      ''</section>'']\<close>

text \<open>One pass of the loop over \<^verbatim>\<open>json_objects\<close> (lines 331 to 383).\<close>

definition section_json ::
  "(string \<rightharpoonup> string \<times> string \<times> bool) \<Rightarrow> (string \<rightharpoonup> row list) \<Rightarrow> string set
     \<Rightarrow> (string \<rightharpoonup> row list) \<Rightarrow> row \<Rightarrow> string list option" where
  \<open>section_json parent_map values_by_enum object_names fields_by_object obj =
     (let name = dict_get obj ''name'';
          desc = dict_get obj ''description''
      in Option.bind (compute_json_path parent_map name) (\<lambda>path.
           let obj_fields = obj_fields_of fields_by_object name
           in if obj_fields = [] then Some []
              else Some (
                [''<section id="obj-'' @ lower name @ ''">'',
                 ''<h2>'' @ escape name @ ''</h2>'']
                @ (if desc \<noteq> [] then [''<p class="description">'' @ escape desc @ ''</p>''] else [])
                @ (if path \<noteq> []
                   then [''<p class="muted">JSON path: <code>'' @ escape path @ ''</code></p>'']
                   else [])
                @ [''<table>'',
                   ''<tr><th style="width:20%">Field</th><th style="width:20%">Type</th><th style="width:60%">Description</th></tr>'']
                @ concat (map (field_row_json values_by_enum object_names) obj_fields)
                @ [''</table>'', ''</section>''])))\<close>

text \<open>The page assembled at the end of \<^verbatim>\<open>generate_json_html\<close> (lines 386 to 414); \<open>now\<close> is the clock reading as \<^verbatim>\<open>strftime\<close> formats it.\<close>

definition json_page :: "string \<Rightarrow> string list \<Rightarrow> string list \<Rightarrow> string" where
  \<open>json_page now nav_items content =
     ''<!DOCTYPE html>
<html lang="en">
<head>
    <meta charset="UTF-8">
    <meta name="viewport" content="width=device-width, initial-scale=1.0">
    <link rel="stylesheet" href="https://fonts.googleapis.com/css?family=Roboto:400,500,600&display=swap">
    <title>LandPKS JSON Export Format</title>
    ''
  @ HTML_STYLES
  @ ''
</head>
<body>
    <header>
        <div class="container">
            <h1>LandPKS JSON Export Format</h1>
            <p>Documentation for the JSON format returned by the export API</p>
        </div>
    </header>
    <div class="container">
        <nav>
            ''
  @ join '' '' nav_items
  @ ''
            <span class="muted" style="margin-left: 20px;">See also: <a href="csv_format.html">CSV Format</a></span>
        </nav>
        ''
  @ concat content
  @ ''
        <footer>
            Generated on ''
  @ now
  @ '' '' @ [CHR 0xB7] @ ''
            <a href="https://github.com/techmatters/terraso-backend">terraso-backend</a>
        </footer>
    </div>
</body>
</html>''\<close>

text \<open>
  \<^verbatim>\<open>generate_json_html(data)\<close>; \<open>now\<close> is what
  \<^verbatim>\<open>datetime.now().strftime("%Y-%m-%d %H:%M")\<close> reads from the clock.
\<close>

definition generate_json_html :: "string \<Rightarrow> (string \<rightharpoonup> row list) \<Rightarrow> error + string" where
  "generate_json_html now data =
     and_then (getitem data ''objects'') (\<lambda>objects.
     and_then (getitem data ''fields'') (\<lambda>fields.
     and_then (getitem data ''enum_values'') (\<lambda>enum_values.
       let object_names = set (map (\<lambda>obj. dict_get obj ''name'') objects);
           values_by_enum = group_rows ''enum'' enum_values Map.empty;
           parent_map = parent_map_of object_names fields Map.empty;
           fields_by_object = merge_location (group_rows ''object'' fields Map.empty);
           json_objects = json_objects_of fields_by_object objects
       in case traverse (section_json parent_map values_by_enum object_names fields_by_object)
                 json_objects of
            None \<Rightarrow> Inl RecursionError
          | Some object_sections \<Rightarrow>
              Inr (json_page now (nav_items_of json_objects)
                     (overview_json @ concat object_sections)))))"

subsection \<open>\<^verbatim>\<open>generate_csv_html\<close> of \<^verbatim>\<open>standalone/generate_html.py\<close>\<close>

text \<open>The type cell of a CSV row (lines 484 to 492): the type is not stripped.\<close>

definition type_html_csv :: "(string \<rightharpoonup> row list) \<Rightarrow> string \<Rightarrow> string" where
  \<open>type_html_csv values_by_enum ftype =
     (case values_by_enum ftype of
        Some enum_vals \<Rightarrow> join '', '' (map (\<lambda>v. escape (dict_get v ''label'')) enum_vals)
      | None \<Rightarrow>
          if ftype = ''boolean'' then ''<span class="type">TRUE, FALSE</span>''
          else ''<span class="type">'' @ escape ftype @ ''</span>'')\<close>

definition field_row_csv :: "(string \<rightharpoonup> row list) \<Rightarrow> row \<Rightarrow> string list" where
  \<open>field_row_csv values_by_enum f =
     [''<tr><td>'' @ escape (dict_get f ''csv_column'') @ ''</td>'',
      ''<td>'' @ type_html_csv values_by_enum (dict_get f ''type'') @ ''</td>'',
      ''<td>'' @ escape (dict_get f ''description'') @ ''</td></tr>'']\<close>

definition nav_items_csv :: "string list" where
  \<open>nav_items_csv =
     map (\<lambda>(obj_name, display_name).
       ''<a href="#csv-'' @ lower obj_name @ ''">'' @ display_name @ ''</a>'') sections\<close>

definition overview_csv :: "string list" where
  \<open>overview_csv =
     [''<section id="overview">'',
      ''<h2>Overview</h2>'',
      ''<p>The CSV export produces <strong>one row per depth interval per site</strong>. Site-level fields repeat on each row.</p>'',
      ''</section>'']\<close>

text \<open>
  What one section appends to \<^verbatim>\<open>content\<close> for the rows it is given (lines 469 to
  499).
\<close>

definition section_rows_csv :: "(string \<rightharpoonup> row list) \<Rightarrow> string \<Rightarrow> string \<Rightarrow> row list \<Rightarrow> string list" where
  \<open>section_rows_csv values_by_enum obj_name display_name obj_fields =
     [''<section id="csv-'' @ lower obj_name @ ''">'',
      ''<h2>'' @ display_name @ ''</h2>'']
     @ (if obj_name = ''DepthInterval''
        then [''<p class="description">One row per depth interval. Intervals are determined by the site\'s depth interval preset.</p>'']
        else [])
     @ [''<table>'',
        ''<tr><th style="width:20%">CSV Column</th><th style="width:20%">Type</th><th style="width:60%">Description</th></tr>'']
     @ concat (map (field_row_csv values_by_enum) obj_fields)
     @ [''</table>'', ''</section>'']\<close>

text \<open>One pass of the loop over \<^verbatim>\<open>sections\<close> (lines 463 to 499).\<close>

definition section_csv ::
  "(string \<rightharpoonup> row list) \<Rightarrow> (string \<rightharpoonup> row list) \<Rightarrow> string \<times> string \<Rightarrow> string list" where
  "section_csv values_by_enum fields_by_object sec =
     (let obj_name = fst sec;
          display_name = snd sec;
          obj_fields = entries fields_by_object obj_name
      in if obj_fields = [] then []
         else section_rows_csv values_by_enum obj_name display_name obj_fields)"

text \<open>The list \<^verbatim>\<open>content\<close> when the loop over the sections has ended.\<close>

definition content_csv :: "row list \<Rightarrow> row list \<Rightarrow> string list" where
  "content_csv fields enum_values =
     (let values_by_enum = group_rows ''enum'' enum_values Map.empty;
          csv_fields = filter is_csv_field fields;
          fields_by_object = group_rows ''object'' csv_fields Map.empty
      in overview_csv @ concat (map (section_csv values_by_enum fields_by_object) sections))"

text \<open>The page assembled at the end of \<^verbatim>\<open>generate_csv_html\<close> (lines 502 to 530).\<close>

definition csv_page :: "string \<Rightarrow> string list \<Rightarrow> string list \<Rightarrow> string" where
  \<open>csv_page now nav_items content =
     ''<!DOCTYPE html>
<html lang="en">
<head>
    <meta charset="UTF-8">
    <meta name="viewport" content="width=device-width, initial-scale=1.0">
    <link rel="stylesheet" href="https://fonts.googleapis.com/css?family=Roboto:400,500,600&display=swap">
    <title>LandPKS CSV Export Format</title>
    ''
  @ HTML_STYLES
  @ ''
</head>
<body>
    <header>
        <div class="container">
            <h1>LandPKS CSV Export Format</h1>
            <p>Documentation for the CSV format returned by the export API</p>
        </div>
    </header>
    <div class="container">
        <nav>
            ''
  @ join '' '' nav_items
  @ ''
            <span class="muted" style="margin-left: 20px;">See also: <a href="json_format.html">JSON Format</a></span>
        </nav>
        ''
  @ concat content
  @ ''
        <footer>
            Generated on ''
  @ now
  @ '' '' @ [CHR 0xB7] @ ''
            <a href="https://github.com/techmatters/terraso-backend">terraso-backend</a>
        </footer>
    </div>
</body>
</html>''\<close>

definition generate_csv_html :: "string \<Rightarrow> (string \<rightharpoonup> row list) \<Rightarrow> error + string" where
  "generate_csv_html now data =
     and_then (getitem data ''fields'') (\<lambda>fields.
     and_then (getitem data ''enum_values'') (\<lambda>enum_values.
       Inr (csv_page now nav_items_csv (content_csv fields enum_values))))"

subsection \<open>\<^verbatim>\<open>generate_json_html\<close> of \<^verbatim>\<open>obsolete/generate_html_wp.py\<close>\<close>

text \<open>The module constant \<^verbatim>\<open>SCOPED_STYLES\<close> of \<^verbatim>\<open>generate_html_wp.py\<close>.\<close>

definition SCOPED_STYLES :: "string" where
  \<open>SCOPED_STYLES =
     ''
<style>
/* Scoped styles for export docs - minimal overrides */
#export-docs .nav-links {
    margin-bottom: 1.5em;
    padding: 1em;
    background: #f5f5f5;
    border-radius: 4px;
}
#export-docs .nav-links a {
    display: inline-block;
    margin: 0.25em 0.5em 0.25em 0;
    padding: 0.25em 0.75em;
    background: #e0e0e0;
    border-radius: 3px;
    text-decoration: none;
}
#export-docs .nav-links a:hover {
    background: #4a7c4e;
    color: white;
}
#export-docs table {
    width: 100%;
    border-collapse: collapse;
    margin: 1em 0;
}
#export-docs th,
#export-docs td {
    padding: 0.5em 0.75em;
    text-align: left;
    border-bottom: 1px solid #ddd;
    vertical-align: top;
}
#export-docs th {
    background: #f9f9f9;
    font-weight: 600;
}
#export-docs code {
    background: #f5f5f5;
    padding: 0.1em 0.4em;
    border-radius: 3px;
    font-size: 0.9em;
}
#export-docs pre {
    background: #f5f5f5;
    padding: 1em;
    border-radius: 4px;
    overflow-x: auto;
}
#export-docs .section {
    margin-bottom: 2em;
}
#export-docs .muted {
    color: #666;
}
#export-docs .json-path {
    color: #666;
    font-size: 0.9em;
    margin-bottom: 1em;
}
</style>
''\<close>

text \<open>The type cell of a field row (lines 231 to 242).\<close>

definition type_html_json_wp :: "(string \<rightharpoonup> row list) \<Rightarrow> string set \<Rightarrow> string \<Rightarrow> string" where
  \<open>type_html_json_wp values_by_enum object_names base_type =
     (case values_by_enum base_type of
        Some enum_vals \<Rightarrow> join '', '' (map (\<lambda>v. escape (dict_get v ''value'')) enum_vals)
      | None \<Rightarrow>
          if base_type = ''boolean'' then ''true, false''
          else if base_type = ''datetime'' then ''ISO 8601 DateTime''
          else if base_type \<in> object_names
          then ''<a href="#obj-'' @ lower base_type @ ''">'' @ escape base_type @ ''</a>''
          else escape base_type)\<close>

definition field_row_json_wp :: "(string \<rightharpoonup> row list) \<Rightarrow> string set \<Rightarrow> row \<Rightarrow> string" where
  \<open>field_row_json_wp values_by_enum object_names f =
     ''<tr><td>'' @ fname_html_of f @ ''</td><td>''
     @ type_html_json_wp values_by_enum object_names (base_type_of (dict_get f ''type''))
     @ ''</td><td>'' @ escape (dict_get f ''description'') @ ''</td></tr>''\<close>

definition overview_json_wp :: "string list" where
  \<open>overview_json_wp =
     [''<div class="section" id="overview">'',
      ''<h2>Overview</h2>'',
      ''<p>The export API returns site data in JSON format with the following structure:</p>'',
      ''<pre><code>'' @ structure_html @ ''</code></pre>'',
      ''<p>Fields starting with <code>_</code> are derived fields expanded by the export.</p>'',
      ''</div>'']\<close>

text \<open>One pass of the loop over \<^verbatim>\<open>json_objects\<close> (lines 198 to 247).\<close>

definition section_json_wp ::
  "(string \<rightharpoonup> string \<times> string \<times> bool) \<Rightarrow> (string \<rightharpoonup> row list) \<Rightarrow> string set
     \<Rightarrow> (string \<rightharpoonup> row list) \<Rightarrow> row \<Rightarrow> string list option" where
  \<open>section_json_wp parent_map values_by_enum object_names fields_by_object obj =
     (let name = dict_get obj ''name'';
          desc = dict_get obj ''description''
      in Option.bind (compute_json_path parent_map name) (\<lambda>path.
           let obj_fields = obj_fields_of fields_by_object name
           in if obj_fields = [] then Some []
              else Some (
                [''<div class="section" id="obj-'' @ lower name @ ''">'',
                 ''<h2>'' @ escape name @ ''</h2>'']
                @ (if desc \<noteq> [] then [''<p>'' @ escape desc @ ''</p>''] else [])
                @ (if path \<noteq> []
                   then [''<p class="json-path">JSON path: <code>'' @ escape path @ ''</code></p>'']
                   else [])
                @ [''<table>'',
                   ''<thead><tr><th>Field</th><th>Type</th><th>Description</th></tr></thead>'',
                   ''<tbody>'']
                @ map (field_row_json_wp values_by_enum object_names) obj_fields
                @ [''</tbody></table>'', ''</div>''])))\<close>

text \<open>The fragment assembled at the end of \<^verbatim>\<open>generate_json_html\<close> of \<^verbatim>\<open>generate_html_wp.py\<close> (lines 250 to 263).\<close>

definition json_fragment_wp :: "string list \<Rightarrow> string list \<Rightarrow> string" where
  \<open>json_fragment_wp nav_items content =
     ''<!-- WordPress Export Docs - JSON Format -->
''
  @ SCOPED_STYLES
  @ ''
<div id="export-docs">
    <h1>LandPKS JSON Export Format</h1>
    <p>Documentation for the JSON format returned by the export API</p>

    <div class="nav-links">
        ''
  @ join '' '' nav_items
  @ ''
        <span class="muted" style="margin-left: 1em;">See also: <a href="csv_format_wp.html">CSV Format</a></span>
    </div>

    ''
  @ concat content
  @ ''
</div>
''\<close>

definition generate_json_html_wp :: "(string \<rightharpoonup> row list) \<Rightarrow> error + string" where
  "generate_json_html_wp data =
     and_then (getitem data ''objects'') (\<lambda>objects.
     and_then (getitem data ''fields'') (\<lambda>fields.
     and_then (getitem data ''enum_values'') (\<lambda>enum_values.
       let object_names = set (map (\<lambda>obj. dict_get obj ''name'') objects);
           values_by_enum = group_rows ''enum'' enum_values Map.empty;
           parent_map = parent_map_of object_names fields Map.empty;
           fields_by_object = merge_location (group_rows ''object'' fields Map.empty);
           json_objects = json_objects_of fields_by_object objects
       in case traverse (section_json_wp parent_map values_by_enum object_names fields_by_object)
                 json_objects of
            None \<Rightarrow> Inl RecursionError
          | Some object_sections \<Rightarrow>
              Inr (json_fragment_wp (nav_items_of json_objects)
                     (overview_json_wp @ concat object_sections)))))"

subsection \<open>\<^verbatim>\<open>generate_csv_html\<close> of \<^verbatim>\<open>obsolete/generate_html_wp.py\<close>\<close>

definition type_html_csv_wp :: "(string \<rightharpoonup> row list) \<Rightarrow> string \<Rightarrow> string" where
  \<open>type_html_csv_wp values_by_enum ftype =
     (case values_by_enum ftype of
        Some enum_vals \<Rightarrow> join '', '' (map (\<lambda>v. escape (dict_get v ''label'')) enum_vals)
      | None \<Rightarrow>
          if ftype = ''boolean'' then ''TRUE, FALSE''
          else escape ftype)\<close>

definition field_row_csv_wp :: "(string \<rightharpoonup> row list) \<Rightarrow> row \<Rightarrow> string" where
  \<open>field_row_csv_wp values_by_enum f =
     ''<tr><td>'' @ escape (dict_get f ''csv_column'') @ ''</td><td>''
     @ type_html_csv_wp values_by_enum (dict_get f ''type'')
     @ ''</td><td>'' @ escape (dict_get f ''description'') @ ''</td></tr>''\<close>

text \<open>The navigation lists only the sections that have rows (lines 291 to 294).\<close>

definition nav_items_csv_wp :: "(string \<rightharpoonup> row list) \<Rightarrow> string list" where
  \<open>nav_items_csv_wp fields_by_object =
     map (\<lambda>(obj_name, display_name).
           ''<a href="#csv-'' @ lower obj_name @ ''">'' @ display_name @ ''</a>'')
       (filter (\<lambda>(obj_name, display_name). entries fields_by_object obj_name \<noteq> []) sections)\<close>

definition overview_csv_wp :: "string list" where
  \<open>overview_csv_wp =
     [''<div class="section" id="overview">'',
      ''<h2>Overview</h2>'',
      ''<p>The CSV export produces <strong>one row per depth interval per site</strong>. Site-level fields repeat on each row.</p>'',
      ''</div>'']\<close>

definition section_rows_csv_wp :: "(string \<rightharpoonup> row list) \<Rightarrow> string \<Rightarrow> string \<Rightarrow> row list \<Rightarrow> string list" where
  \<open>section_rows_csv_wp values_by_enum obj_name display_name obj_fields =
     [''<div class="section" id="csv-'' @ lower obj_name @ ''">'',
      ''<h2>'' @ display_name @ ''</h2>'']
     @ (if obj_name = ''DepthInterval''
        then [''<p>One row per depth interval. Intervals are determined by the site\'s depth interval preset.</p>'']
        else [])
     @ [''<table>'',
        ''<thead><tr><th>CSV Column</th><th>Type</th><th>Description</th></tr></thead>'',
        ''<tbody>'']
     @ map (field_row_csv_wp values_by_enum) obj_fields
     @ [''</tbody></table>'', ''</div>'']\<close>

definition section_csv_wp ::
  "(string \<rightharpoonup> row list) \<Rightarrow> (string \<rightharpoonup> row list) \<Rightarrow> string \<times> string \<Rightarrow> string list" where
  "section_csv_wp values_by_enum fields_by_object sec =
     (let obj_name = fst sec;
          display_name = snd sec;
          obj_fields = entries fields_by_object obj_name
      in if obj_fields = [] then []
         else section_rows_csv_wp values_by_enum obj_name display_name obj_fields)"

definition content_csv_wp :: "row list \<Rightarrow> row list \<Rightarrow> string list" where
  "content_csv_wp fields enum_values =
     (let values_by_enum = group_rows ''enum'' enum_values Map.empty;
          csv_fields = filter is_csv_field fields;
          fields_by_object = group_rows ''object'' csv_fields Map.empty
      in overview_csv_wp @ concat (map (section_csv_wp values_by_enum fields_by_object) sections))"

text \<open>The fragment assembled at the end of \<^verbatim>\<open>generate_csv_html\<close> of \<^verbatim>\<open>generate_html_wp.py\<close> (lines 337 to 350).\<close>

definition csv_fragment_wp :: "string list \<Rightarrow> string list \<Rightarrow> string" where
  \<open>csv_fragment_wp nav_items content =
     ''<!-- WordPress Export Docs - CSV Format -->
''
  @ SCOPED_STYLES
  @ ''
<div id="export-docs">
    <h1>LandPKS CSV Export Format</h1>
    <p>Documentation for the CSV format returned by the export API</p>

    <div class="nav-links">
        ''
  @ join '' '' nav_items
  @ ''
        <span class="muted" style="margin-left: 1em;">See also: <a href="json_format_wp.html">JSON Format</a></span>
    </div>

    ''
  @ concat content
  @ ''
</div>
''\<close>

definition generate_csv_html_wp :: "(string \<rightharpoonup> row list) \<Rightarrow> error + string" where
  "generate_csv_html_wp data =
     and_then (getitem data ''fields'') (\<lambda>fields.
     and_then (getitem data ''enum_values'') (\<lambda>enum_values.
       Inr (csv_fragment_wp
              (nav_items_csv_wp (group_rows ''object'' (filter is_csv_field fields) Map.empty))
              (content_csv_wp fields enum_values))))"

section \<open>What the rows of a table contribute\<close>

text \<open>
  The tuple a reference row appends to \<^verbatim>\<open>children\<close> (line 53), the tuple any other
  row appends to \<^verbatim>\<open>primitives\<close> (line 67), and the test that tells them apart
  (line 49), each read off a row whose columns are present.
\<close>

definition child_entry :: "row \<Rightarrow> string \<times> string \<times> bool" where
  "child_entry f =
     (dict_get f ''json_name'', base_type_of (dict_get f ''type''), is_array_of (dict_get f ''type''))"

definition primitive_entry :: "(string \<rightharpoonup> string list) \<Rightarrow> row \<Rightarrow> string \<times> string \<times> string" where
  "primitive_entry values_by_enum f =
     (dict_get f ''json_name'',
      type_display_of values_by_enum (base_type_of (dict_get f ''type'')),
      dict_get f ''description'')"

definition is_reference :: "string set \<Rightarrow> row \<Rightarrow> bool" where
  "is_reference object_names f = (base_type_of (dict_get f ''type'') \<in> object_names)"

text \<open>The rows of one owner that the loop of \<^verbatim>\<open>build_tree\<close> does not skip.\<close>

definition named_rows :: "string \<Rightarrow> row list \<Rightarrow> row list" where
  "named_rows owner fields =
     filter (\<lambda>f. dict_get f ''json_name'' \<noteq> [] \<and> dict_get f ''object'' = owner) fields"



text \<open>
  The lists of a grouping after the merge of \<^verbatim>\<open>Location\<close> into \<^verbatim>\<open>Site\<close>, in
  terms of the lists before it: when both objects have a list, the list of
  \<^verbatim>\<open>Site\<close> is followed by the list of \<^verbatim>\<open>Location\<close>, which is dropped.
\<close>

definition merged_list :: "(string \<Rightarrow> 'a list) \<Rightarrow> string \<Rightarrow> 'a list" where
  "merged_list list_of owner =
     (if list_of ''Site'' \<noteq> [] \<and> list_of ''Location'' \<noteq> []
      then if owner = ''Site'' then list_of ''Site'' @ list_of ''Location''
           else if owner = ''Location'' then []
           else list_of owner
      else list_of owner)"

section \<open>A small schema\<close>

text \<open>
  Tables on which the theorems below are instantiated: three objects, an enum with two
  values, and fields of every kind (a reference, an enum, a boolean, a row without
  JSON name, rows of \<^verbatim>\<open>Location\<close> before and after rows of \<^verbatim>\<open>Site\<close>).
\<close>

definition field_of :: "string \<Rightarrow> string \<Rightarrow> string \<Rightarrow> string \<Rightarrow> string \<Rightarrow> row" where
  "field_of object json_name csv_column type description =
     [''object'' \<mapsto> object, ''json_name'' \<mapsto> json_name, ''csv_column'' \<mapsto> csv_column,
      ''type'' \<mapsto> type, ''description'' \<mapsto> description]"

definition demo_objects :: "row list" where
  "demo_objects =
     [[''name'' \<mapsto> ''Site'', ''description'' \<mapsto> ''A site''],
      [''name'' \<mapsto> ''Project'', ''description'' \<mapsto> []],
      [''name'' \<mapsto> ''Location'', ''description'' \<mapsto> ''Where the site is'']]"

definition demo_fields :: "row list" where
  "demo_fields =
     [field_of ''Location'' ''latitude'' ''Latitude'' ''number'' [],
      field_of ''Site'' ''id'' ''ID'' ''string'' ''Site id'',
      field_of ''Site'' ''project'' [] ''Project'' ''The project'',
      field_of ''Site'' ''status'' ''Status'' ''Status'' [],
      field_of ''Site'' [] ''Privacy'' ''boolean'' ''CSV only'',
      field_of ''Project'' ''name'' ''Project name'' ''string'' []]"

definition demo_enum_values :: "row list" where
  "demo_enum_values =
     [[''enum'' \<mapsto> ''Status'', ''value'' \<mapsto> ''A'', ''label'' \<mapsto> ''Active''],
      [''enum'' \<mapsto> ''Status'', ''value'' \<mapsto> ''I'', ''label'' \<mapsto> ''Inactive'']]"

definition demo_fs :: filesystem where
  "demo_fs =
     [''fields.csv'' \<mapsto> demo_fields, ''objects.csv'' \<mapsto> demo_objects,
      ''enum_values.csv'' \<mapsto> demo_enum_values]"

section \<open>Lemmas about the dictionaries of lists\<close>

lemma entries_append_to:
  "entries (append_to m k x) k' = (if k' = k then entries m k @ [x] else entries m k')"
  by (simp add: entries_def append_to_def)

lemma append_to_tidy: "\<forall>k. m k \<noteq> Some [] \<Longrightarrow> append_to m k x k' \<noteq> Some []"
  by (simp add: append_to_def)

lemma entries_empty_iff: "m k \<noteq> Some [] \<Longrightarrow> entries m k = [] \<longleftrightarrow> m k = None"
  by (cases "m k") (simp_all add: entries_def)

lemma group_rows_entries:
  "entries (group_rows key rs m) k = entries m k @ filter (\<lambda>r. dict_get r key = k) rs"
  by (induction rs arbitrary: m) (simp_all add: entries_append_to)

lemma group_rows_tidy:
  "\<forall>k. m k \<noteq> Some [] \<Longrightarrow> group_rows key rs m k \<noteq> Some []"
  by (induction rs arbitrary: m) (simp_all add: append_to_tidy)

lemma values_by_enum_of_entries:
  "entries (values_by_enum_of vs m) k =
     entries m k @ map (\<lambda>v. dict_get v ''value'') (filter (\<lambda>v. dict_get v ''enum'' = k) vs)"
  by (induction vs arbitrary: m) (simp_all add: entries_append_to)

lemma values_by_enum_of_tidy:
  "\<forall>k. m k \<noteq> Some [] \<Longrightarrow> values_by_enum_of vs m k \<noteq> Some []"
  by (induction vs arbitrary: m) (simp_all add: append_to_tidy)

lemma field_step_Inr:
  assumes "field_step N V f st = Inr st'"
  shows "st' =
     (if dict_get f ''json_name'' = [] then st
      else if is_reference N f
        then (append_to (fst st) (dict_get f ''object'') (child_entry f), snd st)
        else (fst st, append_to (snd st) (dict_get f ''object'') (primitive_entry V f)))"
  using assms
  by (auto simp: field_step_def and_then_def getitem_def dict_get_def is_reference_def
      child_entry_def primitive_entry_def Let_def split: option.splits if_splits)

lemma field_loop_entries:
  assumes "field_loop N V fields st = Inr st'"
  shows "entries (fst st') owner =
           entries (fst st) owner @ map child_entry (filter (is_reference N) (named_rows owner fields))"
    and "entries (snd st') owner =
           entries (snd st) owner
           @ map (primitive_entry V) (filter (\<lambda>f. \<not> is_reference N f) (named_rows owner fields))"
  using assms
proof (induction fields arbitrary: st)
  case Nil
  { case 1 then show ?case by (simp add: named_rows_def) }
  { case 2 then show ?case by (simp add: named_rows_def) }
next
  case (Cons f fields)
  { case 1
    then obtain st1 where s1: "field_step N V f st = Inr st1" and l: "field_loop N V fields st1 = Inr st'"
      by (auto simp: and_then_def split: sum.splits)
    show ?case
      using Cons.IH(1)[OF l] field_step_Inr[OF s1]
      by (auto simp: named_rows_def entries_append_to) }
  { case 2
    then obtain st1 where s1: "field_step N V f st = Inr st1" and l: "field_loop N V fields st1 = Inr st'"
      by (auto simp: and_then_def split: sum.splits)
    show ?case
      using Cons.IH(2)[OF l] field_step_Inr[OF s1]
      by (auto simp: named_rows_def entries_append_to) }
qed

lemma field_loop_tidy:
  assumes "field_loop N V fields st = Inr st'"
    and "\<forall>k. fst st k \<noteq> Some []" and "\<forall>k. snd st k \<noteq> Some []"
  shows "fst st' k \<noteq> Some [] \<and> snd st' k \<noteq> Some []"
  using assms
proof (induction fields arbitrary: st)
  case Nil
  then show ?case by simp
next
  case (Cons f fields)
  then obtain st1 where s1: "field_step N V f st = Inr st1" and l: "field_loop N V fields st1 = Inr st'"
    by (auto simp: and_then_def split: sum.splits)
  have "\<forall>k. fst st1 k \<noteq> Some []" "\<forall>k. snd st1 k \<noteq> Some []"
    using field_step_Inr[OF s1] Cons.prems(2,3) by (auto simp: append_to_def)
  with Cons.IH[OF l] show ?case by blast
qed

lemma collect_getitem:
  "collect (\<lambda>obj. getitem obj k) xs = Inr ys \<Longrightarrow> ys = map (\<lambda>obj. dict_get obj k) xs"
  by (induction xs arbitrary: ys)
     (auto simp: and_then_def getitem_def dict_get_def split: sum.splits option.splits)

lemma object_names_of_Inr:
  "object_names_of objects = Inr N \<Longrightarrow> N = set (map (\<lambda>obj. dict_get obj ''name'') objects)"
  by (auto simp: object_names_of_def and_then_def split: sum.splits dest: collect_getitem)

lemma resolve_Inr:
  assumes "resolve fields objects enum_values = Inr (children, primitives, descriptions)"
  shows "\<exists>before_merge.
           field_loop (set (map (\<lambda>obj. dict_get obj ''name'') objects))
             (values_by_enum_of enum_values Map.empty) fields (Map.empty, Map.empty)
             = Inr (children, before_merge)
           \<and> primitives = merge_location before_merge
           \<and> object_desc_of objects Map.empty = Inr descriptions"
  using assms
  by (auto simp: resolve_def and_then_def split: sum.splits dest!: object_names_of_Inr)

lemma build_tree_resolve:
  assumes "build_tree fs = Inr r"
    and "fs ''fields.csv'' = Some fields"
    and "fs ''objects.csv'' = Some objects"
    and "fs ''enum_values.csv'' = Some enum_values"
  shows "resolve fields objects enum_values = Inr r"
  using assms by (simp add: build_tree_def load_csv_hierarchy_def and_then_def)


text \<open>Unfolding the definitions evaluates the model on a concrete table.\<close>

lemmas eval_simps = build_tree_def load_csv_hierarchy_def resolve_def object_names_of_def and_then_def
  getitem_def field_step_def Let_def is_array_of_def base_type_of_def endswith_def
  append_to_def entries_def type_display_of_def merge_location_def dict_get_def

lemmas demo_simps = demo_objects_def demo_fields_def demo_enum_values_def field_of_def

lemma demo_resolve: "\<exists>c p d. resolve demo_fields demo_objects demo_enum_values = Inr (c, p, d)"
  by (simp add: eval_simps demo_simps)

lemma demo_files:
  "demo_fs ''fields.csv'' = Some demo_fields"
  "demo_fs ''objects.csv'' = Some demo_objects"
  "demo_fs ''enum_values.csv'' = Some demo_enum_values"
  by (simp_all add: demo_fs_def)

lemma demo_build_tree: "\<exists>c p d. build_tree demo_fs = Inr (c, p, d)"
  using demo_resolve
  by (simp add: build_tree_def load_csv_hierarchy_def and_then_def demo_files)

section \<open>Classification of the field rows (claim C1)\<close>

text \<open>
  C1, as amended. \<^verbatim>\<open>build_tree\<close> skips every row whose \<^verbatim>\<open>json_name\<close> is empty.
  Of the other rows of an owner, those whose stripped type names a known object are
  the owner's \<^verbatim>\<open>children\<close> list, each as (field name, base type, array flag), and
  none of them is in \<^verbatim>\<open>primitives\<close>: when the loop ends, the owner's
  \<^verbatim>\<open>primitives\<close> list is made of the remaining rows, each with its display label.
  The merge of \<^verbatim>\<open>Location\<close> into \<^verbatim>\<open>Site\<close> is applied to that result.
\<close>

theorem resolver_classifies_named_rows:
  assumes "build_tree fs = Inr (children, primitives, descriptions)"
    and "fs ''fields.csv'' = Some fields"
    and "fs ''objects.csv'' = Some objects"
    and "fs ''enum_values.csv'' = Some enum_values"
  shows "\<exists>before_merge.
           field_loop (set (map (\<lambda>obj. dict_get obj ''name'') objects))
             (values_by_enum_of enum_values Map.empty) fields (Map.empty, Map.empty)
             = Inr (children, before_merge)
           \<and> primitives = merge_location before_merge
           \<and> (\<forall>owner.
                 entries children owner =
                   map child_entry
                     (filter (is_reference (set (map (\<lambda>obj. dict_get obj ''name'') objects)))
                        (named_rows owner fields))
               \<and> entries before_merge owner =
                   map (primitive_entry (values_by_enum_of enum_values Map.empty))
                     (filter (\<lambda>f. \<not> is_reference (set (map (\<lambda>obj. dict_get obj ''name'') objects)) f)
                        (named_rows owner fields)))"
proof -
  from resolve_Inr[OF build_tree_resolve[OF assms]] obtain before_merge where
    loop: "field_loop (set (map (\<lambda>obj. dict_get obj ''name'') objects))
             (values_by_enum_of enum_values Map.empty) fields (Map.empty, Map.empty)
             = Inr (children, before_merge)"
    and m: "primitives = merge_location before_merge"
    by blast
  from field_loop_entries[OF loop] have
    "\<forall>owner. entries children owner =
                   map child_entry
                     (filter (is_reference (set (map (\<lambda>obj. dict_get obj ''name'') objects)))
                        (named_rows owner fields))
               \<and> entries before_merge owner =
                   map (primitive_entry (values_by_enum_of enum_values Map.empty))
                     (filter (\<lambda>f. \<not> is_reference (set (map (\<lambda>obj. dict_get obj ''name'') objects)) f)
                        (named_rows owner fields))"
    by (simp add: entries_def)
  with loop m show ?thesis by blast
qed

theorem resolver_classifies_named_rows_witness:
  "\<exists>children primitives descriptions before_merge.
     build_tree demo_fs = Inr (children, primitives, descriptions)
     \<and> primitives = merge_location before_merge
     \<and> entries children ''Site'' = [(''project'', ''Project'', False)]
     \<and> entries before_merge ''Site'' = [(''id'', ''string'', ''Site id''), (''status'', ''A, I'', [])]
     \<and> entries before_merge ''Location'' = [(''latitude'', ''number'', [])]"
proof -
  obtain c p d where r: "build_tree demo_fs = Inr (c, p, d)"
    using demo_build_tree by blast
  from resolver_classifies_named_rows[OF r demo_files] obtain b where
    m: "p = merge_location b"
    and e: "\<And>owner. entries c owner =
                   map child_entry
                     (filter (is_reference (set (map (\<lambda>obj. dict_get obj ''name'') demo_objects)))
                        (named_rows owner demo_fields))"
       "\<And>owner. entries b owner =
                   map (primitive_entry (values_by_enum_of demo_enum_values Map.empty))
                     (filter (\<lambda>f. \<not> is_reference (set (map (\<lambda>obj. dict_get obj ''name'') demo_objects)) f)
                        (named_rows owner demo_fields))"
    by blast
  have 1: "entries c ''Site'' = [(''project'', ''Project'', False)]"
    unfolding e
    by (simp add: demo_simps named_rows_def is_reference_def child_entry_def eval_simps)
  have 2: "entries b ''Site'' = [(''id'', ''string'', ''Site id''), (''status'', ''A, I'', [])]"
    unfolding e
    by (simp add: demo_simps named_rows_def is_reference_def primitive_entry_def eval_simps)
  have 3: "entries b ''Location'' = [(''latitude'', ''number'', [])]"
    unfolding e
    by (simp add: demo_simps named_rows_def is_reference_def primitive_entry_def eval_simps)
  from r m 1 2 3 show ?thesis by blast
qed

text \<open>
  C1 as stated fails on a row without JSON name: the row below has the type of a known
  object, and the owner gets no \<^verbatim>\<open>children\<close> entry (and no \<^verbatim>\<open>primitives\<close>
  entry) for it.
\<close>

theorem unnamed_reference_row_counterexample:
  "map_sum id (\<lambda>(children, primitives, descriptions). (children ''Site'', primitives ''Site''))
     (build_tree
       [''fields.csv'' \<mapsto>
         [[''object'' \<mapsto> ''Site'', ''json_name'' \<mapsto> [], ''csv_column'' \<mapsto> ''Project name'',
           ''type'' \<mapsto> ''Project'', ''description'' \<mapsto> ''Name of the project'']],
       ''objects.csv'' \<mapsto>
         [[''name'' \<mapsto> ''Site'', ''description'' \<mapsto> ''A site''],
          [''name'' \<mapsto> ''Project'', ''description'' \<mapsto> ''A project'']],
       ''enum_values.csv'' \<mapsto> []])
   = Inr (None, None)"
  by (simp add: eval_simps)

section \<open>Order of the resolved lists (claim C3)\<close>

lemma merge_location_entries:
  assumes "\<forall>k. m k \<noteq> Some []"
  shows "entries (merge_location m) owner = merged_list (entries m) owner"
proof -
  have "entries m ''Site'' \<noteq> [] \<longleftrightarrow> m ''Site'' \<noteq> None"
    and "entries m ''Location'' \<noteq> [] \<longleftrightarrow> m ''Location'' \<noteq> None"
    using assms by (simp_all add: entries_empty_iff)
  then show ?thesis
    by (auto simp: merge_location_def merged_list_def entries_def split: option.splits)
qed

lemma group_rows_empty_entries:
  "entries (group_rows key rs Map.empty) k = filter (\<lambda>r. dict_get r key = k) rs"
  by (simp add: group_rows_entries) (simp add: entries_def)

lemma merged_group_rows:
  "entries (merge_location (group_rows ''object'' fields Map.empty)) owner =
     merged_list (\<lambda>k. filter (\<lambda>f. dict_get f ''object'' = k) fields) owner"
proof -
  have "\<forall>k. group_rows ''object'' fields Map.empty k \<noteq> Some []"
    by (simp add: group_rows_tidy)
  from merge_location_entries[OF this] show ?thesis
    by (simp add: group_rows_empty_entries[abs_def])
qed

lemma resolved_lists_entries:
  assumes "resolve fields objects enum_values = Inr (children, primitives, descriptions)"
  shows "entries children owner =
           map child_entry
             (filter (is_reference (set (map (\<lambda>obj. dict_get obj ''name'') objects)))
                (named_rows owner fields))
       \<and> entries primitives owner =
           merged_list (\<lambda>k.
             map (primitive_entry (values_by_enum_of enum_values Map.empty))
               (filter (\<lambda>f. \<not> is_reference (set (map (\<lambda>obj. dict_get obj ''name'') objects)) f)
                  (named_rows k fields))) owner"
proof -
  from resolve_Inr[OF assms] obtain before_merge where
    loop: "field_loop (set (map (\<lambda>obj. dict_get obj ''name'') objects))
             (values_by_enum_of enum_values Map.empty) fields (Map.empty, Map.empty)
             = Inr (children, before_merge)"
    and m: "primitives = merge_location before_merge"
    by blast
  have c: "entries children owner =
           map child_entry
             (filter (is_reference (set (map (\<lambda>obj. dict_get obj ''name'') objects)))
                (named_rows owner fields))"
    using field_loop_entries(1)[OF loop, of owner] by (simp add: entries_def)
  have b: "entries before_merge =
             (\<lambda>k. map (primitive_entry (values_by_enum_of enum_values Map.empty))
               (filter (\<lambda>f. \<not> is_reference (set (map (\<lambda>obj. dict_get obj ''name'') objects)) f)
                  (named_rows k fields)))"
    using field_loop_entries(2)[OF loop] by (auto simp: entries_def)
  have "\<forall>k. before_merge k \<noteq> Some []"
    using field_loop_tidy[OF loop] by simp
  from merge_location_entries[OF this] have p: "entries primitives owner =
           merged_list (\<lambda>k.
             map (primitive_entry (values_by_enum_of enum_values Map.empty))
               (filter (\<lambda>f. \<not> is_reference (set (map (\<lambda>obj. dict_get obj ''name'') objects)) f)
                  (named_rows k fields))) owner"
    by (simp add: m b)
  from c p show ?thesis by blast
qed

text \<open>
  C3, as amended. The lists that the grouping loops build hold the rows of their object
  in the order of the input table: the \<^verbatim>\<open>children\<close> list of an object, and its
  \<^verbatim>\<open>primitives\<close> and \<^verbatim>\<open>fields_by_object\<close> lists as long as the merge leaves
  them alone. The merge does not interleave: the resolved list of \<^verbatim>\<open>Site\<close> is the
  rows of \<^verbatim>\<open>Site\<close> in input order followed by the rows of \<^verbatim>\<open>Location\<close> in
  input order, and \<^verbatim>\<open>Location\<close> keeps no list.
\<close>

theorem resolved_lists_keep_input_order:
  assumes "build_tree fs = Inr (children, primitives, descriptions)"
    and "fs ''fields.csv'' = Some fields"
    and "fs ''objects.csv'' = Some objects"
    and "fs ''enum_values.csv'' = Some enum_values"
  shows "entries children owner =
           map child_entry
             (filter (is_reference (set (map (\<lambda>obj. dict_get obj ''name'') objects)))
                (named_rows owner fields))
       \<and> entries primitives owner =
           merged_list (\<lambda>k.
             map (primitive_entry (values_by_enum_of enum_values Map.empty))
               (filter (\<lambda>f. \<not> is_reference (set (map (\<lambda>obj. dict_get obj ''name'') objects)) f)
                  (named_rows k fields))) owner
       \<and> entries (merge_location (group_rows ''object'' fields Map.empty)) owner =
           merged_list (\<lambda>k. filter (\<lambda>f. dict_get f ''object'' = k) fields) owner"
  using resolved_lists_entries[OF build_tree_resolve[OF assms], of owner] merged_group_rows[of fields owner] by blast

theorem resolved_lists_keep_input_order_witness:
  "\<exists>children primitives descriptions.
     build_tree demo_fs = Inr (children, primitives, descriptions)
     \<and> entries children ''Site'' = [(''project'', ''Project'', False)]
     \<and> entries primitives ''Site'' =
         [(''id'', ''string'', ''Site id''), (''status'', ''A, I'', []), (''latitude'', ''number'', [])]
     \<and> entries primitives ''Location'' = []
     \<and> entries primitives ''Project'' = [(''name'', ''string'', [])]"
proof -
  obtain c p d where r: "build_tree demo_fs = Inr (c, p, d)"
    using demo_build_tree by blast
  note e = resolved_lists_keep_input_order[OF r demo_files]
  have "map child_entry
          (filter (is_reference (set (map (\<lambda>obj. dict_get obj ''name'') demo_objects)))
             (named_rows ''Site'' demo_fields)) = [(''project'', ''Project'', False)]"
    by code_simp
  with e[of "''Site''"] have 1: "entries c ''Site'' = [(''project'', ''Project'', False)]"
    by simp
  have "merged_list (\<lambda>k.
          map (primitive_entry (values_by_enum_of demo_enum_values Map.empty))
            (filter (\<lambda>f. \<not> is_reference (set (map (\<lambda>obj. dict_get obj ''name'') demo_objects)) f)
               (named_rows k demo_fields))) ''Site'' =
        [(''id'', ''string'', ''Site id''), (''status'', ''A, I'', []), (''latitude'', ''number'', [])]"
    by code_simp
  with e[of "''Site''"] have 2: "entries p ''Site'' =
         [(''id'', ''string'', ''Site id''), (''status'', ''A, I'', []), (''latitude'', ''number'', [])]"
    by simp
  have "merged_list (\<lambda>k.
          map (primitive_entry (values_by_enum_of demo_enum_values Map.empty))
            (filter (\<lambda>f. \<not> is_reference (set (map (\<lambda>obj. dict_get obj ''name'') demo_objects)) f)
               (named_rows k demo_fields))) ''Location'' = []"
    by code_simp
  with e[of "''Location''"] have 3: "entries p ''Location'' = []"
    by simp
  have "merged_list (\<lambda>k.
          map (primitive_entry (values_by_enum_of demo_enum_values Map.empty))
            (filter (\<lambda>f. \<not> is_reference (set (map (\<lambda>obj. dict_get obj ''name'') demo_objects)) f)
               (named_rows k demo_fields))) ''Project'' = [(''name'', ''string'', [])]"
    by code_simp
  with e[of "''Project''"] have 4: "entries p ''Project'' = [(''name'', ''string'', [])]"
    by simp
  from r 1 2 3 4 show ?thesis by blast
qed

text \<open>
  C3 as stated fails on the list of \<^verbatim>\<open>Site\<close>: the row of \<^verbatim>\<open>Location\<close> is
  first in the table below and last in the resolved list.
\<close>

theorem merge_breaks_input_order_counterexample:
  "map_sum id (\<lambda>(children, primitives, descriptions). primitives ''Site'')
     (build_tree
       [''fields.csv'' \<mapsto>
         [[''object'' \<mapsto> ''Location'', ''json_name'' \<mapsto> ''latitude'', ''csv_column'' \<mapsto> ''Latitude'',
           ''type'' \<mapsto> ''number'', ''description'' \<mapsto> ''Degrees north''],
          [''object'' \<mapsto> ''Site'', ''json_name'' \<mapsto> ''id'', ''csv_column'' \<mapsto> ''ID'',
           ''type'' \<mapsto> ''string'', ''description'' \<mapsto> ''Site id'']],
       ''objects.csv'' \<mapsto>
         [[''name'' \<mapsto> ''Site'', ''description'' \<mapsto> ''A site''],
          [''name'' \<mapsto> ''Location'', ''description'' \<mapsto> ''Where the site is'']],
       ''enum_values.csv'' \<mapsto> []])
   = Inr (Some [(''id'', ''string'', ''Site id''), (''latitude'', ''number'', ''Degrees north'')])"
  by (simp add: eval_simps)

section \<open>The merge of \<^verbatim>\<open>Location\<close> into \<^verbatim>\<open>Site\<close> (claim C2)\<close>

lemma json_objects_of_not_location:
  "obj \<in> set (json_objects_of fields_by_object objects) \<Longrightarrow> dict_get obj ''name'' \<noteq> ''Location''"
  by (simp add: json_objects_of_def)

lemma entries_nonempty_key: "entries m k \<noteq> [] \<Longrightarrow> m k \<noteq> None"
  by (cases "m k") (simp_all add: entries_def)

text \<open>
  C2, as amended. In the JSON pages of both sectioned generators no object named
  \<^verbatim>\<open>Location\<close> is among \<^verbatim>\<open>json_objects\<close>, so it gets no navigation entry and no
  section. When the fields table has rows of both \<^verbatim>\<open>Site\<close> and \<^verbatim>\<open>Location\<close>,
  the rows listed in the section of \<^verbatim>\<open>Site\<close> are the JSON rows of \<^verbatim>\<open>Site\<close>
  followed by the JSON rows of \<^verbatim>\<open>Location\<close>. In the nested-box generator, when both
  objects have primitive fields, the fields of \<^verbatim>\<open>Location\<close> follow those of
  \<^verbatim>\<open>Site\<close> in the table of \<^verbatim>\<open>Site\<close> and \<^verbatim>\<open>primitives\<close> has no key
  \<^verbatim>\<open>Location\<close>. (The CSV pages keep a section of their own for
  \<^verbatim>\<open>Location\<close>.)
\<close>

theorem location_rows_listed_under_site:
  assumes "build_tree fs = Inr (children, primitives, descriptions)"
    and "fs ''fields.csv'' = Some fields"
    and "fs ''objects.csv'' = Some objects"
    and "fs ''enum_values.csv'' = Some enum_values"
  shows "(\<forall>obj \<in> set (json_objects_of fields_by_object objects). dict_get obj ''name'' \<noteq> ''Location'')
       \<and> (filter (\<lambda>f. dict_get f ''object'' = ''Site'') fields \<noteq> []
            \<and> filter (\<lambda>f. dict_get f ''object'' = ''Location'') fields \<noteq> [] \<longrightarrow>
          obj_fields_of (merge_location (group_rows ''object'' fields Map.empty)) ''Site'' =
            filter is_json_field (filter (\<lambda>f. dict_get f ''object'' = ''Site'') fields)
            @ filter is_json_field (filter (\<lambda>f. dict_get f ''object'' = ''Location'') fields)
          \<and> merge_location (group_rows ''object'' fields Map.empty) ''Location'' = None)
       \<and> (filter (\<lambda>f. \<not> is_reference (set (map (\<lambda>obj. dict_get obj ''name'') objects)) f)
              (named_rows ''Site'' fields) \<noteq> []
            \<and> filter (\<lambda>f. \<not> is_reference (set (map (\<lambda>obj. dict_get obj ''name'') objects)) f)
              (named_rows ''Location'' fields) \<noteq> [] \<longrightarrow>
          entries primitives ''Site'' =
            map (primitive_entry (values_by_enum_of enum_values Map.empty))
              (filter (\<lambda>f. \<not> is_reference (set (map (\<lambda>obj. dict_get obj ''name'') objects)) f)
                 (named_rows ''Site'' fields))
            @ map (primitive_entry (values_by_enum_of enum_values Map.empty))
              (filter (\<lambda>f. \<not> is_reference (set (map (\<lambda>obj. dict_get obj ''name'') objects)) f)
                 (named_rows ''Location'' fields))
          \<and> primitives ''Location'' = None)"
proof (intro conjI impI ballI)
  fix obj assume "obj \<in> set (json_objects_of fields_by_object objects)"
  then show "dict_get obj ''name'' \<noteq> ''Location''" by (rule json_objects_of_not_location)
next
  assume a: "filter (\<lambda>f. dict_get f ''object'' = ''Site'') fields \<noteq> []
            \<and> filter (\<lambda>f. dict_get f ''object'' = ''Location'') fields \<noteq> []"
  have "entries (merge_location (group_rows ''object'' fields Map.empty)) ''Site'' =
          filter (\<lambda>f. dict_get f ''object'' = ''Site'') fields
          @ filter (\<lambda>f. dict_get f ''object'' = ''Location'') fields"
    using a by (simp add: merged_group_rows merged_list_def)
  then show "obj_fields_of (merge_location (group_rows ''object'' fields Map.empty)) ''Site'' =
            filter is_json_field (filter (\<lambda>f. dict_get f ''object'' = ''Site'') fields)
            @ filter is_json_field (filter (\<lambda>f. dict_get f ''object'' = ''Location'') fields)"
    by (simp add: obj_fields_of_def)
next
  assume a: "filter (\<lambda>f. dict_get f ''object'' = ''Site'') fields \<noteq> []
            \<and> filter (\<lambda>f. dict_get f ''object'' = ''Location'') fields \<noteq> []"
  let ?m = "group_rows ''object'' fields Map.empty"
  have "entries ?m ''Site'' \<noteq> []" "entries ?m ''Location'' \<noteq> []"
    using a by (simp_all add: group_rows_empty_entries)
  then have "?m ''Site'' \<noteq> None" "?m ''Location'' \<noteq> None"
    by (simp_all add: entries_nonempty_key)
  then show "merge_location ?m ''Location'' = None"
    by (auto simp: merge_location_def)
next
  assume a: "filter (\<lambda>f. \<not> is_reference (set (map (\<lambda>obj. dict_get obj ''name'') objects)) f)
              (named_rows ''Site'' fields) \<noteq> []
            \<and> filter (\<lambda>f. \<not> is_reference (set (map (\<lambda>obj. dict_get obj ''name'') objects)) f)
              (named_rows ''Location'' fields) \<noteq> []"
  from resolved_lists_entries[OF build_tree_resolve[OF assms], of "''Site''"] a
  show "entries primitives ''Site'' =
            map (primitive_entry (values_by_enum_of enum_values Map.empty))
              (filter (\<lambda>f. \<not> is_reference (set (map (\<lambda>obj. dict_get obj ''name'') objects)) f)
                 (named_rows ''Site'' fields))
            @ map (primitive_entry (values_by_enum_of enum_values Map.empty))
              (filter (\<lambda>f. \<not> is_reference (set (map (\<lambda>obj. dict_get obj ''name'') objects)) f)
                 (named_rows ''Location'' fields))"
    by (simp add: merged_list_def)
next
  assume a: "filter (\<lambda>f. \<not> is_reference (set (map (\<lambda>obj. dict_get obj ''name'') objects)) f)
              (named_rows ''Site'' fields) \<noteq> []
            \<and> filter (\<lambda>f. \<not> is_reference (set (map (\<lambda>obj. dict_get obj ''name'') objects)) f)
              (named_rows ''Location'' fields) \<noteq> []"
  from resolve_Inr[OF build_tree_resolve[OF assms]] obtain before_merge where
    loop: "field_loop (set (map (\<lambda>obj. dict_get obj ''name'') objects))
             (values_by_enum_of enum_values Map.empty) fields (Map.empty, Map.empty)
             = Inr (children, before_merge)"
    and m: "primitives = merge_location before_merge"
    by blast
  have "entries before_merge ''Site'' \<noteq> []" "entries before_merge ''Location'' \<noteq> []"
    using field_loop_entries(2)[OF loop] a by (simp_all add: entries_def)
  then have "before_merge ''Site'' \<noteq> None" "before_merge ''Location'' \<noteq> None"
    by (simp_all add: entries_nonempty_key)
  then show "primitives ''Location'' = None"
    by (auto simp: m merge_location_def)
qed

theorem location_rows_listed_under_site_witness:
  "\<exists>children primitives descriptions.
     build_tree demo_fs = Inr (children, primitives, descriptions)
     \<and> map (\<lambda>obj. dict_get obj ''name'')
           (json_objects_of (merge_location (group_rows ''object'' demo_fields Map.empty)) demo_objects)
         = [''Site'', ''Project'']
     \<and> map (\<lambda>f. dict_get f ''json_name'')
           (obj_fields_of (merge_location (group_rows ''object'' demo_fields Map.empty)) ''Site'')
         = [''id'', ''project'', ''status'', ''latitude'']
     \<and> entries primitives ''Site'' =
         [(''id'', ''string'', ''Site id''), (''status'', ''A, I'', []), (''latitude'', ''number'', [])]
     \<and> primitives ''Location'' = None"
proof -
  obtain c p d where r: "build_tree demo_fs = Inr (c, p, d)"
    using demo_build_tree by blast
  note t = location_rows_listed_under_site[OF r demo_files,
      of "merge_location (group_rows ''object'' demo_fields Map.empty)"]
  have h1: "filter (\<lambda>f. dict_get f ''object'' = ''Site'') demo_fields \<noteq> []
            \<and> filter (\<lambda>f. dict_get f ''object'' = ''Location'') demo_fields \<noteq> []"
    by code_simp
  have h2: "filter (\<lambda>f. \<not> is_reference (set (map (\<lambda>obj. dict_get obj ''name'') demo_objects)) f)
              (named_rows ''Site'' demo_fields) \<noteq> []
            \<and> filter (\<lambda>f. \<not> is_reference (set (map (\<lambda>obj. dict_get obj ''name'') demo_objects)) f)
              (named_rows ''Location'' demo_fields) \<noteq> []"
    by code_simp
  from t have names: "\<forall>obj \<in> set (json_objects_of
        (merge_location (group_rows ''object'' demo_fields Map.empty)) demo_objects).
      dict_get obj ''name'' \<noteq> ''Location''"
    by blast
  from t h1 have a: "obj_fields_of (merge_location (group_rows ''object'' demo_fields Map.empty)) ''Site'' =
            filter is_json_field (filter (\<lambda>f. dict_get f ''object'' = ''Site'') demo_fields)
            @ filter is_json_field (filter (\<lambda>f. dict_get f ''object'' = ''Location'') demo_fields)"
    by blast
  from t h2 have b: "entries p ''Site'' =
            map (primitive_entry (values_by_enum_of demo_enum_values Map.empty))
              (filter (\<lambda>f. \<not> is_reference (set (map (\<lambda>obj. dict_get obj ''name'') demo_objects)) f)
                 (named_rows ''Site'' demo_fields))
            @ map (primitive_entry (values_by_enum_of demo_enum_values Map.empty))
              (filter (\<lambda>f. \<not> is_reference (set (map (\<lambda>obj. dict_get obj ''name'') demo_objects)) f)
                 (named_rows ''Location'' demo_fields))"
    and l: "p ''Location'' = None"
    by blast+
  have v1: "map (\<lambda>f. dict_get f ''json_name'')
              (filter is_json_field (filter (\<lambda>f. dict_get f ''object'' = ''Site'') demo_fields)
               @ filter is_json_field (filter (\<lambda>f. dict_get f ''object'' = ''Location'') demo_fields))
            = [''id'', ''project'', ''status'', ''latitude'']"
    by code_simp
  have v2: "map (primitive_entry (values_by_enum_of demo_enum_values Map.empty))
              (filter (\<lambda>f. \<not> is_reference (set (map (\<lambda>obj. dict_get obj ''name'') demo_objects)) f)
                 (named_rows ''Site'' demo_fields))
            @ map (primitive_entry (values_by_enum_of demo_enum_values Map.empty))
              (filter (\<lambda>f. \<not> is_reference (set (map (\<lambda>obj. dict_get obj ''name'') demo_objects)) f)
                 (named_rows ''Location'' demo_fields))
            = [(''id'', ''string'', ''Site id''), (''status'', ''A, I'', []), (''latitude'', ''number'', [])]"
    by code_simp
  have v3: "map (\<lambda>obj. dict_get obj ''name'')
           (json_objects_of (merge_location (group_rows ''object'' demo_fields Map.empty)) demo_objects)
         = [''Site'', ''Project'']"
    by code_simp
  have A: "map (\<lambda>f. dict_get f ''json_name'')
           (obj_fields_of (merge_location (group_rows ''object'' demo_fields Map.empty)) ''Site'')
         = [''id'', ''project'', ''status'', ''latitude'']"
    unfolding a by (rule v1)
  have B: "entries p ''Site'' =
         [(''id'', ''string'', ''Site id''), (''status'', ''A, I'', []), (''latitude'', ''number'', [])]"
    unfolding b by (rule v2)
  show ?thesis
  proof (intro exI conjI)
    show "build_tree demo_fs = Inr (c, p, d)" by (rule r)
  qed (rule v3 A B l)+
qed

text \<open>
  C2 as stated fails in the CSV pages, whose hand-declared sections include
  \<^verbatim>\<open>Location\<close>: a row of \<^verbatim>\<open>Location\<close> with a CSV column gets a section of its
  own in both scripts. It fails in the JSON pages when \<^verbatim>\<open>Site\<close> has no row of its
  own: the merge is skipped, \<^verbatim>\<open>Location\<close> is still left out of
  \<^verbatim>\<open>json_objects\<close>, and its row is listed nowhere.
\<close>

theorem location_section_counterexample:
  \<open>''<section id="csv-location">'' \<in> set (content_csv
       [[''object'' \<mapsto> ''Location'', ''json_name'' \<mapsto> ''latitude'', ''csv_column'' \<mapsto> ''Latitude'',
         ''type'' \<mapsto> ''number'', ''description'' \<mapsto> ''Degrees north'']] [])
   \<and> ''<div class="section" id="csv-location">'' \<in> set (content_csv_wp
       [[''object'' \<mapsto> ''Location'', ''json_name'' \<mapsto> ''latitude'', ''csv_column'' \<mapsto> ''Latitude'',
         ''type'' \<mapsto> ''number'', ''description'' \<mapsto> ''Degrees north'']] [])
   \<and> json_objects_of
       (merge_location (group_rows ''object''
         [[''object'' \<mapsto> ''Location'', ''json_name'' \<mapsto> ''latitude'', ''csv_column'' \<mapsto> ''Latitude'',
           ''type'' \<mapsto> ''number'', ''description'' \<mapsto> ''Degrees north'']] Map.empty))
       [[''name'' \<mapsto> ''Site'', ''description'' \<mapsto> ''A site''],
        [''name'' \<mapsto> ''Location'', ''description'' \<mapsto> ''Where the site is'']]
     = []\<close>
  by code_simp

section \<open>Type cells of enum and boolean fields (claims C4 and C5)\<close>

lemma group_rows_lookup:
  "group_rows key rs Map.empty k =
     (if filter (\<lambda>r. dict_get r key = k) rs = [] then None
      else Some (filter (\<lambda>r. dict_get r key = k) rs))"
proof (cases "group_rows key rs Map.empty k")
  case None
  then have "entries (group_rows key rs Map.empty) k = []" by (simp add: entries_def)
  with None show ?thesis by (simp add: group_rows_empty_entries)
next
  case (Some l)
  then have "entries (group_rows key rs Map.empty) k = l" by (simp add: entries_def)
  moreover have "l \<noteq> []"
    using group_rows_tidy[of Map.empty key rs k] Some by auto
  ultimately show ?thesis using Some by (simp add: group_rows_empty_entries)
qed

lemma values_by_enum_of_empty_entries:
  "entries (values_by_enum_of vs Map.empty) k =
     map (\<lambda>v. dict_get v ''value'') (filter (\<lambda>v. dict_get v ''enum'' = k) vs)"
  by (simp add: values_by_enum_of_entries) (simp add: entries_def)

lemma values_by_enum_of_lookup:
  "values_by_enum_of vs Map.empty k =
     (if filter (\<lambda>v. dict_get v ''enum'' = k) vs = [] then None
      else Some (map (\<lambda>v. dict_get v ''value'') (filter (\<lambda>v. dict_get v ''enum'' = k) vs)))"
proof (cases "values_by_enum_of vs Map.empty k")
  case None
  then have "entries (values_by_enum_of vs Map.empty) k = []" by (simp add: entries_def)
  with None show ?thesis by (simp add: values_by_enum_of_empty_entries)
next
  case (Some l)
  then have "entries (values_by_enum_of vs Map.empty) k = l" by (simp add: entries_def)
  moreover have "l \<noteq> []"
    using values_by_enum_of_tidy[of Map.empty vs k] Some by auto
  ultimately show ?thesis using Some by (auto simp: values_by_enum_of_empty_entries)
qed

text \<open>
  C4, as amended. For a field whose type, after stripping a trailing array marker,
  names an enum with at least one row, the JSON-oriented renderers show the
  \<^verbatim>\<open>value\<close> column of that enum's rows, in row order, joined with a comma and a
  space (each value HTML-escaped in the sectioned pages; the nested-box generator
  escapes the joined label when it renders it). The CSV-oriented renderers look the
  type up as it is written: when it carries no array marker, they show the
  \<^verbatim>\<open>label\<close> column of the same rows, joined in the same way.
\<close>

theorem enum_cells_follow_format:
  assumes "rows = filter (\<lambda>v. dict_get v ''enum'' = base_type_of (dict_get f ''type'')) enum_values"
    and "rows \<noteq> []"
  shows "field_row_json (group_rows ''enum'' enum_values Map.empty) object_names f =
           [''<tr><td>'' @ fname_html_of f @ ''</td>'',
            ''<td>'' @ join '', '' (map (\<lambda>v. escape (dict_get v ''value'')) rows) @ ''</td>'',
            ''<td>'' @ escape (dict_get f ''description'') @ ''</td></tr>'']
       \<and> field_row_json_wp (group_rows ''enum'' enum_values Map.empty) object_names f =
           ''<tr><td>'' @ fname_html_of f @ ''</td><td>''
           @ join '', '' (map (\<lambda>v. escape (dict_get v ''value'')) rows)
           @ ''</td><td>'' @ escape (dict_get f ''description'') @ ''</td></tr>''
       \<and> primitive_entry (values_by_enum_of enum_values Map.empty) f =
           (dict_get f ''json_name'',
            join '', '' (map (\<lambda>v. dict_get v ''value'') rows),
            dict_get f ''description'')
       \<and> (\<not> is_array_of (dict_get f ''type'') \<longrightarrow>
            field_row_csv (group_rows ''enum'' enum_values Map.empty) f =
              [''<tr><td>'' @ escape (dict_get f ''csv_column'') @ ''</td>'',
               ''<td>'' @ join '', '' (map (\<lambda>v. escape (dict_get v ''label'')) rows) @ ''</td>'',
               ''<td>'' @ escape (dict_get f ''description'') @ ''</td></tr>'']
          \<and> field_row_csv_wp (group_rows ''enum'' enum_values Map.empty) f =
              ''<tr><td>'' @ escape (dict_get f ''csv_column'') @ ''</td><td>''
              @ join '', '' (map (\<lambda>v. escape (dict_get v ''label'')) rows)
              @ ''</td><td>'' @ escape (dict_get f ''description'') @ ''</td></tr>'')"
proof -
  have g: "group_rows ''enum'' enum_values Map.empty (base_type_of (dict_get f ''type'')) = Some rows"
    using assms by (simp add: group_rows_lookup)
  have v: "values_by_enum_of enum_values Map.empty (base_type_of (dict_get f ''type''))
             = Some (map (\<lambda>v. dict_get v ''value'') rows)"
    using assms by (simp add: values_by_enum_of_lookup)
  have 1: "type_html_json (group_rows ''enum'' enum_values Map.empty) object_names
             (base_type_of (dict_get f ''type'')) =
           join '', '' (map (\<lambda>v. escape (dict_get v ''value'')) rows)"
    by (simp add: type_html_json_def g)
  have 2: "type_html_json_wp (group_rows ''enum'' enum_values Map.empty) object_names
             (base_type_of (dict_get f ''type'')) =
           join '', '' (map (\<lambda>v. escape (dict_get v ''value'')) rows)"
    by (simp add: type_html_json_wp_def g)
  have 3: "type_display_of (values_by_enum_of enum_values Map.empty)
             (base_type_of (dict_get f ''type'')) =
           join '', '' (map (\<lambda>v. dict_get v ''value'') rows)"
    by (simp add: type_display_of_def v)
  have 4: "type_html_csv (group_rows ''enum'' enum_values Map.empty) (dict_get f ''type'') =
           join '', '' (map (\<lambda>v. escape (dict_get v ''label'')) rows)"
    if "\<not> is_array_of (dict_get f ''type'')"
    using that g by (simp add: type_html_csv_def base_type_of_def)
  have 5: "type_html_csv_wp (group_rows ''enum'' enum_values Map.empty) (dict_get f ''type'') =
           join '', '' (map (\<lambda>v. escape (dict_get v ''label'')) rows)"
    if "\<not> is_array_of (dict_get f ''type'')"
    using that g by (simp add: type_html_csv_wp_def base_type_of_def)
  show ?thesis
    by (simp add: field_row_json_def field_row_json_wp_def primitive_entry_def
        field_row_csv_def field_row_csv_wp_def 1 2 3 4 5 del: append_assoc)
qed

theorem enum_cells_follow_format_witness:
  "field_row_json (group_rows ''enum'' demo_enum_values Map.empty)
       (set (map (\<lambda>obj. dict_get obj ''name'') demo_objects))
       (field_of ''Site'' ''status'' ''Status'' ''Status'' [])
     = [''<tr><td><code>status</code></td>'', ''<td>A, I</td>'', ''<td></td></tr>'']
   \<and> field_row_json_wp (group_rows ''enum'' demo_enum_values Map.empty)
       (set (map (\<lambda>obj. dict_get obj ''name'') demo_objects))
       (field_of ''Site'' ''status'' ''Status'' ''Status'' [])
     = ''<tr><td><code>status</code></td><td>A, I</td><td></td></tr>''
   \<and> primitive_entry (values_by_enum_of demo_enum_values Map.empty)
       (field_of ''Site'' ''status'' ''Status'' ''Status'' [])
     = (''status'', ''A, I'', [])
   \<and> field_row_csv (group_rows ''enum'' demo_enum_values Map.empty)
       (field_of ''Site'' ''status'' ''Status'' ''Status'' [])
     = [''<tr><td>Status</td>'', ''<td>Active, Inactive</td>'', ''<td></td></tr>'']
   \<and> field_row_csv_wp (group_rows ''enum'' demo_enum_values Map.empty)
       (field_of ''Site'' ''status'' ''Status'' ''Status'' [])
     = ''<tr><td>Status</td><td>Active, Inactive</td><td></td></tr>''"
proof -
  let ?f = "field_of ''Site'' ''status'' ''Status'' ''Status'' []"
  let ?rows = "filter (\<lambda>v. dict_get v ''enum'' = base_type_of (dict_get ?f ''type'')) demo_enum_values"
  have h: "?rows \<noteq> []" by code_simp
  have a: "\<not> is_array_of (dict_get ?f ''type'')" by code_simp
  note t = enum_cells_follow_format[OF refl h,
      of "set (map (\<lambda>obj. dict_get obj ''name'') demo_objects)"]
  have e1: "[''<tr><td>'' @ fname_html_of ?f @ ''</td>'',
            ''<td>'' @ join '', '' (map (\<lambda>v. escape (dict_get v ''value'')) ?rows) @ ''</td>'',
            ''<td>'' @ escape (dict_get ?f ''description'') @ ''</td></tr>'']
          = [''<tr><td><code>status</code></td>'', ''<td>A, I</td>'', ''<td></td></tr>'']"
    by code_simp
  have e2: "''<tr><td>'' @ fname_html_of ?f @ ''</td><td>''
           @ join '', '' (map (\<lambda>v. escape (dict_get v ''value'')) ?rows)
           @ ''</td><td>'' @ escape (dict_get ?f ''description'') @ ''</td></tr>''
          = ''<tr><td><code>status</code></td><td>A, I</td><td></td></tr>''"
    by code_simp
  have e3: "(dict_get ?f ''json_name'',
            join '', '' (map (\<lambda>v. dict_get v ''value'') ?rows),
            dict_get ?f ''description'') = (''status'', ''A, I'', [])"
    by code_simp
  have e4: "[''<tr><td>'' @ escape (dict_get ?f ''csv_column'') @ ''</td>'',
               ''<td>'' @ join '', '' (map (\<lambda>v. escape (dict_get v ''label'')) ?rows) @ ''</td>'',
               ''<td>'' @ escape (dict_get ?f ''description'') @ ''</td></tr>'']
          = [''<tr><td>Status</td>'', ''<td>Active, Inactive</td>'', ''<td></td></tr>'']"
    by code_simp
  have e5: "''<tr><td>'' @ escape (dict_get ?f ''csv_column'') @ ''</td><td>''
              @ join '', '' (map (\<lambda>v. escape (dict_get v ''label'')) ?rows)
              @ ''</td><td>'' @ escape (dict_get ?f ''description'') @ ''</td></tr>''
          = ''<tr><td>Status</td><td>Active, Inactive</td><td></td></tr>''"
    by code_simp
  from t a show ?thesis
    unfolding e1 e2 e3 e4 e5 by blast
qed

text \<open>
  C4 as stated fails for a type with an array marker. With the enum \<^verbatim>\<open>Status\<close>
  and a field of type \<^verbatim>\<open>Status[]\<close>, the JSON page shows the values of
  \<^verbatim>\<open>Status\<close> and the CSV page shows the type as it is written. When the table
  also holds an enum whose name is \<^verbatim>\<open>Status[]\<close>, the JSON page shows the values
  of \<^verbatim>\<open>Status\<close> and the CSV page the labels of \<^verbatim>\<open>Status[]\<close>: the two cells
  are not taken from the same rows.
\<close>

theorem enum_array_cells_counterexample:
  \<open>field_row_json
       (group_rows ''enum''
         [[''enum'' \<mapsto> ''Status'', ''value'' \<mapsto> ''A'', ''label'' \<mapsto> ''Active''],
          [''enum'' \<mapsto> ''Status'', ''value'' \<mapsto> ''I'', ''label'' \<mapsto> ''Inactive'']] Map.empty)
       {''Site''}
       [''object'' \<mapsto> ''Site'', ''json_name'' \<mapsto> ''states'', ''csv_column'' \<mapsto> ''States'',
        ''type'' \<mapsto> ''Status[]'', ''description'' \<mapsto> []]
     = [''<tr><td><code>states[]</code></td>'', ''<td>A, I</td>'', ''<td></td></tr>'']
   \<and> field_row_csv
       (group_rows ''enum''
         [[''enum'' \<mapsto> ''Status'', ''value'' \<mapsto> ''A'', ''label'' \<mapsto> ''Active''],
          [''enum'' \<mapsto> ''Status'', ''value'' \<mapsto> ''I'', ''label'' \<mapsto> ''Inactive'']] Map.empty)
       [''object'' \<mapsto> ''Site'', ''json_name'' \<mapsto> ''states'', ''csv_column'' \<mapsto> ''States'',
        ''type'' \<mapsto> ''Status[]'', ''description'' \<mapsto> []]
     = [''<tr><td>States</td>'', ''<td><span class="type">Status[]</span></td>'', ''<td></td></tr>'']
   \<and> field_row_json
       (group_rows ''enum''
         [[''enum'' \<mapsto> ''Status'', ''value'' \<mapsto> ''A'', ''label'' \<mapsto> ''Active''],
          [''enum'' \<mapsto> ''Status[]'', ''value'' \<mapsto> ''X'', ''label'' \<mapsto> ''Ex'']] Map.empty)
       {''Site''}
       [''object'' \<mapsto> ''Site'', ''json_name'' \<mapsto> ''states'', ''csv_column'' \<mapsto> ''States'',
        ''type'' \<mapsto> ''Status[]'', ''description'' \<mapsto> []]
     = [''<tr><td><code>states[]</code></td>'', ''<td>A</td>'', ''<td></td></tr>'']
   \<and> field_row_csv
       (group_rows ''enum''
         [[''enum'' \<mapsto> ''Status'', ''value'' \<mapsto> ''A'', ''label'' \<mapsto> ''Active''],
          [''enum'' \<mapsto> ''Status[]'', ''value'' \<mapsto> ''X'', ''label'' \<mapsto> ''Ex'']] Map.empty)
       [''object'' \<mapsto> ''Site'', ''json_name'' \<mapsto> ''states'', ''csv_column'' \<mapsto> ''States'',
        ''type'' \<mapsto> ''Status[]'', ''description'' \<mapsto> []]
     = [''<tr><td>States</td>'', ''<td>Ex</td>'', ''<td></td></tr>'']\<close>
  by code_simp




section \<open>Missing files and the missing root (claims C6 and C7)\<close>

lemma load_all_data_keys:
  "dom (snd (load_all_data fs)) = {''objects'', ''fields'', ''enum_values''}"
  by (auto simp: load_all_data_def Let_def)

text \<open>
  The loaders of \<^verbatim>\<open>generate_html.py\<close> and \<^verbatim>\<open>generate_html_wp.py\<close> never
  fail: an absent file costs one warning line and yields no rows, the dictionary
  returned always has its three keys, and the CSV page is generated from it whatever
  files are absent.
\<close>

theorem sectioned_loaders_tolerate_absent_files:
  "fst (load_csv fs filename) =
     (if fs filename = None then [''Warning: '' @ filename @ '' not found''] else [])
   \<and> snd (load_csv fs filename) = entries fs filename
   \<and> dom (snd (load_all_data fs)) = {''objects'', ''fields'', ''enum_values''}
   \<and> (\<exists>html. generate_csv_html now (snd (load_all_data fs)) = Inr html)
   \<and> (\<exists>html. generate_csv_html_wp (snd (load_all_data fs)) = Inr html)"
proof (intro conjI)
  show "fst (load_csv fs filename) =
     (if fs filename = None then [''Warning: '' @ filename @ '' not found''] else [])"
    by (simp add: load_csv_def split: option.splits)
  show "snd (load_csv fs filename) = entries fs filename"
    by (simp add: load_csv_def entries_def split: option.splits)
  show "dom (snd (load_all_data fs)) = {''objects'', ''fields'', ''enum_values''}"
    by (rule load_all_data_keys)
  show "\<exists>html. generate_csv_html now (snd (load_all_data fs)) = Inr html"
    by (simp add: generate_csv_html_def load_all_data_def Let_def getitem_def and_then_def)
  show "\<exists>html. generate_csv_html_wp (snd (load_all_data fs)) = Inr html"
    by (simp add: generate_csv_html_wp_def load_all_data_def Let_def getitem_def and_then_def)
qed

text \<open>
  C6 holds for the loaders of \<^verbatim>\<open>generate_html.py\<close> and
  \<^verbatim>\<open>generate_html_wp.py\<close>, as shown above, and fails for the loader of
  \<^verbatim>\<open>generate_hierarchy.py\<close>, which has no test for the file: with
  \<^verbatim>\<open>fields.csv\<close> absent, the loader raises and the run of the nested-box generator
  ends there, where the two other loaders print a warning and return no rows.
\<close>

theorem hierarchy_loader_raises_on_absent_file:
  "load_csv_hierarchy
       [''objects.csv'' \<mapsto> demo_objects, ''enum_values.csv'' \<mapsto> demo_enum_values] ''fields.csv''
     = Inl (FileNotFoundError ''fields.csv'')
   \<and> main_hierarchy
       [''objects.csv'' \<mapsto> demo_objects, ''enum_values.csv'' \<mapsto> demo_enum_values]
     = Inl (FileNotFoundError ''fields.csv'')
   \<and> load_csv
       [''objects.csv'' \<mapsto> demo_objects, ''enum_values.csv'' \<mapsto> demo_enum_values] ''fields.csv''
     = ([''Warning: fields.csv not found''], [])"
  by (simp add: load_csv_hierarchy_def main_hierarchy_def build_tree_def and_then_def load_csv_def)


















section \<open>The sections of the CSV pages (claim C8)\<close>

lemma concat_map_skip_empty:
  "concat (map (\<lambda>x. if h x = [] then [] else g x (h x)) xs)
     = concat (map (\<lambda>x. g x (h x)) (filter (\<lambda>x. h x \<noteq> []) xs))"
  by (induction xs) simp_all

lemma csv_fields_of_object:
  "entries (group_rows ''object'' (filter is_csv_field fields) Map.empty) obj_name
     = filter (\<lambda>f. is_csv_field f \<and> dict_get f ''object'' = obj_name) fields"
  by (simp add: group_rows_empty_entries conj_commute)

text \<open>
  C8. The CSV page of either script holds, after its overview, one section for each of
  the seven hand-declared objects that has a field with a non-empty
  \<^verbatim>\<open>csv_column\<close>, in the declared order; the rows of a section are exactly the
  fields of its object that have a non-empty \<^verbatim>\<open>csv_column\<close>, in input order; a
  declared object without such a field has no section.
\<close>

theorem csv_sections_in_declared_order:
  "map fst sections =
     [''Site'', ''Project'', ''Location'', ''SoilMatches'', ''EcologicalSite'', ''SoilData'',
      ''DepthInterval'']
   \<and> content_csv fields enum_values =
       overview_csv
       @ concat (map (\<lambda>sec.
             section_rows_csv (group_rows ''enum'' enum_values Map.empty) (fst sec) (snd sec)
               (filter (\<lambda>f. is_csv_field f \<and> dict_get f ''object'' = fst sec) fields))
           (filter (\<lambda>sec. filter (\<lambda>f. is_csv_field f \<and> dict_get f ''object'' = fst sec) fields \<noteq> [])
              sections))
   \<and> content_csv_wp fields enum_values =
       overview_csv_wp
       @ concat (map (\<lambda>sec.
             section_rows_csv_wp (group_rows ''enum'' enum_values Map.empty) (fst sec) (snd sec)
               (filter (\<lambda>f. is_csv_field f \<and> dict_get f ''object'' = fst sec) fields))
           (filter (\<lambda>sec. filter (\<lambda>f. is_csv_field f \<and> dict_get f ''object'' = fst sec) fields \<noteq> [])
              sections))"
proof (intro conjI)
  show "map fst sections =
     [''Site'', ''Project'', ''Location'', ''SoilMatches'', ''EcologicalSite'', ''SoilData'',
      ''DepthInterval'']"
    by (simp add: sections_def)
next
  have "map (section_csv (group_rows ''enum'' enum_values Map.empty)
              (group_rows ''object'' (filter is_csv_field fields) Map.empty)) sections
        = map (\<lambda>sec.
            if filter (\<lambda>f. is_csv_field f \<and> dict_get f ''object'' = fst sec) fields = [] then []
            else section_rows_csv (group_rows ''enum'' enum_values Map.empty) (fst sec) (snd sec)
                   (filter (\<lambda>f. is_csv_field f \<and> dict_get f ''object'' = fst sec) fields)) sections"
    by (simp add: section_csv_def Let_def csv_fields_of_object)
  then show "content_csv fields enum_values =
       overview_csv
       @ concat (map (\<lambda>sec.
             section_rows_csv (group_rows ''enum'' enum_values Map.empty) (fst sec) (snd sec)
               (filter (\<lambda>f. is_csv_field f \<and> dict_get f ''object'' = fst sec) fields))
           (filter (\<lambda>sec. filter (\<lambda>f. is_csv_field f \<and> dict_get f ''object'' = fst sec) fields \<noteq> [])
              sections))"
    unfolding content_csv_def Let_def
    by (simp only: concat_map_skip_empty[where
          h = "\<lambda>sec. filter (\<lambda>f. is_csv_field f \<and> dict_get f ''object'' = fst sec) fields"
          and g = "\<lambda>sec. section_rows_csv (group_rows ''enum'' enum_values Map.empty) (fst sec) (snd sec)"])
next
  have "map (section_csv_wp (group_rows ''enum'' enum_values Map.empty)
              (group_rows ''object'' (filter is_csv_field fields) Map.empty)) sections
        = map (\<lambda>sec.
            if filter (\<lambda>f. is_csv_field f \<and> dict_get f ''object'' = fst sec) fields = [] then []
            else section_rows_csv_wp (group_rows ''enum'' enum_values Map.empty) (fst sec) (snd sec)
                   (filter (\<lambda>f. is_csv_field f \<and> dict_get f ''object'' = fst sec) fields)) sections"
    by (simp add: section_csv_wp_def Let_def csv_fields_of_object)
  then show "content_csv_wp fields enum_values =
       overview_csv_wp
       @ concat (map (\<lambda>sec.
             section_rows_csv_wp (group_rows ''enum'' enum_values Map.empty) (fst sec) (snd sec)
               (filter (\<lambda>f. is_csv_field f \<and> dict_get f ''object'' = fst sec) fields))
           (filter (\<lambda>sec. filter (\<lambda>f. is_csv_field f \<and> dict_get f ''object'' = fst sec) fields \<noteq> [])
              sections))"
    unfolding content_csv_wp_def Let_def
    by (simp only: concat_map_skip_empty[where
          h = "\<lambda>sec. filter (\<lambda>f. is_csv_field f \<and> dict_get f ''object'' = fst sec) fields"
          and g = "\<lambda>sec. section_rows_csv_wp (group_rows ''enum'' enum_values Map.empty) (fst sec) (snd sec)"])
qed

theorem csv_sections_in_declared_order_witness:
  \<open>filter (\<lambda>s. take 12 s = ''<section id='') (content_csv demo_fields demo_enum_values)
     = [''<section id="overview">'', ''<section id="csv-site">'',
        ''<section id="csv-project">'', ''<section id="csv-location">'']
   \<and> filter (\<lambda>s. take 8 s = ''<tr><td>'') (content_csv demo_fields demo_enum_values)
     = [''<tr><td>ID</td>'', ''<tr><td>Status</td>'', ''<tr><td>Privacy</td>'',
        ''<tr><td>Project name</td>'', ''<tr><td>Latitude</td>'']
   \<and> filter (\<lambda>s. take 8 s = ''<tr><td>'') (content_csv_wp demo_fields demo_enum_values)
     = [''<tr><td>ID</td><td>string</td><td>Site id</td></tr>'',
        ''<tr><td>Status</td><td>Active, Inactive</td><td></td></tr>'',
        ''<tr><td>Privacy</td><td>TRUE, FALSE</td><td>CSV only</td></tr>'',
        ''<tr><td>Project name</td><td>string</td><td></td></tr>'',
        ''<tr><td>Latitude</td><td>number</td><td></td></tr>'']\<close>
proof -
  note t = csv_sections_in_declared_order[of demo_fields demo_enum_values]
  note a = conjunct1[OF conjunct2[OF t]]
  note b = conjunct2[OF conjunct2[OF t]]
  have 1: \<open>filter (\<lambda>s. take 12 s = ''<section id='')
       (overview_csv
        @ concat (map (\<lambda>sec.
             section_rows_csv (group_rows ''enum'' demo_enum_values Map.empty) (fst sec) (snd sec)
               (filter (\<lambda>f. is_csv_field f \<and> dict_get f ''object'' = fst sec) demo_fields))
           (filter (\<lambda>sec. filter (\<lambda>f. is_csv_field f \<and> dict_get f ''object'' = fst sec) demo_fields \<noteq> [])
              sections)))
     = [''<section id="overview">'', ''<section id="csv-site">'',
        ''<section id="csv-project">'', ''<section id="csv-location">'']\<close>
    by code_simp
  have 2: \<open>filter (\<lambda>s. take 8 s = ''<tr><td>'')
       (overview_csv
        @ concat (map (\<lambda>sec.
             section_rows_csv (group_rows ''enum'' demo_enum_values Map.empty) (fst sec) (snd sec)
               (filter (\<lambda>f. is_csv_field f \<and> dict_get f ''object'' = fst sec) demo_fields))
           (filter (\<lambda>sec. filter (\<lambda>f. is_csv_field f \<and> dict_get f ''object'' = fst sec) demo_fields \<noteq> [])
              sections)))
     = [''<tr><td>ID</td>'', ''<tr><td>Status</td>'', ''<tr><td>Privacy</td>'',
        ''<tr><td>Project name</td>'', ''<tr><td>Latitude</td>'']\<close>
    by code_simp
  have 3: \<open>filter (\<lambda>s. take 8 s = ''<tr><td>'')
       (overview_csv_wp
        @ concat (map (\<lambda>sec.
             section_rows_csv_wp (group_rows ''enum'' demo_enum_values Map.empty) (fst sec) (snd sec)
               (filter (\<lambda>f. is_csv_field f \<and> dict_get f ''object'' = fst sec) demo_fields))
           (filter (\<lambda>sec. filter (\<lambda>f. is_csv_field f \<and> dict_get f ''object'' = fst sec) demo_fields \<noteq> [])
              sections)))
     = [''<tr><td>ID</td><td>string</td><td>Site id</td></tr>'',
        ''<tr><td>Status</td><td>Active, Inactive</td><td></td></tr>'',
        ''<tr><td>Privacy</td><td>TRUE, FALSE</td><td>CSV only</td></tr>'',
        ''<tr><td>Project name</td><td>string</td><td></td></tr>'',
        ''<tr><td>Latitude</td><td>number</td><td></td></tr>'']\<close>
    by code_simp
  show ?thesis
    unfolding a b by (intro conjI) (rule 1 2 3)+
qed

section \<open>The WordPress fragments depend on the rows only (claim C10)\<close>

lemma csv_page_timestamp:
  "csv_page now nav_items content = csv_page now' nav_items content \<Longrightarrow> now = now'"
  unfolding csv_page_def by (simp del: append_assoc add: append_assoc[symmetric])

lemma json_page_timestamp:
  "json_page now nav_items content = json_page now' nav_items content \<Longrightarrow> now = now'"
  unfolding json_page_def by (simp del: append_assoc add: append_assoc[symmetric])

lemma generate_csv_html_timestamp:
  assumes "generate_csv_html now data = Inr html" and "generate_csv_html now' data = Inr html'"
    and "now \<noteq> now'"
  shows "html \<noteq> html'"
proof
  assume "html = html'"
  with assms(1,2) have "generate_csv_html now data = generate_csv_html now' data" by simp
  then have "now = now'"
    using assms(1)
    by (auto simp: generate_csv_html_def and_then_def split: sum.splits dest: csv_page_timestamp)
  with assms(3) show False by simp
qed

lemma generate_json_html_timestamp:
  assumes "generate_json_html now data = Inr html" and "generate_json_html now' data = Inr html'"
    and "now \<noteq> now'"
  shows "html \<noteq> html'"
proof
  assume "html = html'"
  with assms(1,2) have "generate_json_html now data = generate_json_html now' data" by simp
  then have "now = now'"
    using assms(1)
    by (auto simp: generate_json_html_def and_then_def Let_def
        split: sum.splits option.splits dest: json_page_timestamp)
  with assms(3) show False by simp
qed

text \<open>
  C10. The two generators of \<^verbatim>\<open>generate_html_wp.py\<close> are functions of
  \<^verbatim>\<open>data\<close> alone (they read no clock, no random source and no environment), and
  of \<^verbatim>\<open>data\<close> they read the three row collections only: two dictionaries with
  equal rows under \<^verbatim>\<open>objects\<close>, \<^verbatim>\<open>fields\<close> and \<^verbatim>\<open>enum_values\<close> give the
  same result, the same HTML string or the same exception. The standalone generators
  take the clock reading as well, and two different readings give two different pages.
\<close>

theorem wp_fragments_depend_only_on_rows:
  assumes "data ''objects'' = data' ''objects''"
    and "data ''fields'' = data' ''fields''"
    and "data ''enum_values'' = data' ''enum_values''"
  shows "generate_json_html_wp data = generate_json_html_wp data'
       \<and> generate_csv_html_wp data = generate_csv_html_wp data'
       \<and> (\<forall>now now' html html'.
             generate_json_html now data = Inr html \<and> generate_json_html now' data' = Inr html'
             \<and> now \<noteq> now' \<longrightarrow> html \<noteq> html')
       \<and> (\<forall>now now' html html'.
             generate_csv_html now data = Inr html \<and> generate_csv_html now' data' = Inr html'
             \<and> now \<noteq> now' \<longrightarrow> html \<noteq> html')"
proof (intro conjI allI impI)
  show "generate_json_html_wp data = generate_json_html_wp data'"
    by (simp add: generate_json_html_wp_def getitem_def assms)
  show "generate_csv_html_wp data = generate_csv_html_wp data'"
    by (simp add: generate_csv_html_wp_def getitem_def assms)
next
  fix now now' html html'
  assume a: "generate_json_html now data = Inr html \<and> generate_json_html now' data' = Inr html'
             \<and> now \<noteq> now'"
  have "generate_json_html now' data' = generate_json_html now' data"
    by (simp add: generate_json_html_def getitem_def assms)
  with a show "html \<noteq> html'"
    using generate_json_html_timestamp[of now data html now' html'] by simp
next
  fix now now' html html'
  assume a: "generate_csv_html now data = Inr html \<and> generate_csv_html now' data' = Inr html'
             \<and> now \<noteq> now'"
  have "generate_csv_html now' data' = generate_csv_html now' data"
    by (simp add: generate_csv_html_def getitem_def assms)
  with a show "html \<noteq> html'"
    using generate_csv_html_timestamp[of now data html now' html'] by simp
qed

theorem wp_fragments_depend_only_on_rows_witness:
  "generate_json_html_wp
       [''objects'' \<mapsto> demo_objects, ''fields'' \<mapsto> demo_fields, ''enum_values'' \<mapsto> demo_enum_values]
     = generate_json_html_wp
       [''objects'' \<mapsto> demo_objects, ''fields'' \<mapsto> demo_fields, ''enum_values'' \<mapsto> demo_enum_values,
        ''generated'' \<mapsto> []]
   \<and> generate_csv_html_wp
       [''objects'' \<mapsto> demo_objects, ''fields'' \<mapsto> demo_fields, ''enum_values'' \<mapsto> demo_enum_values]
     = generate_csv_html_wp
       [''objects'' \<mapsto> demo_objects, ''fields'' \<mapsto> demo_fields, ''enum_values'' \<mapsto> demo_enum_values,
        ''generated'' \<mapsto> []]
   \<and> \<not> isl (generate_json_html_wp
       [''objects'' \<mapsto> demo_objects, ''fields'' \<mapsto> demo_fields, ''enum_values'' \<mapsto> demo_enum_values])
   \<and> csv_page ''2026-01-01 10:00'' nav_items_csv (content_csv demo_fields demo_enum_values)
     \<noteq> csv_page ''2026-01-01 10:01'' nav_items_csv (content_csv demo_fields demo_enum_values)"
proof -
  let ?d = "[''objects'' \<mapsto> demo_objects, ''fields'' \<mapsto> demo_fields,
             ''enum_values'' \<mapsto> demo_enum_values]"
  let ?d' = "[''objects'' \<mapsto> demo_objects, ''fields'' \<mapsto> demo_fields,
              ''enum_values'' \<mapsto> demo_enum_values, ''generated'' \<mapsto> []]"
  have h: "?d ''objects'' = ?d' ''objects''" "?d ''fields'' = ?d' ''fields''"
    "?d ''enum_values'' = ?d' ''enum_values''"
    by simp_all
  note t = wp_fragments_depend_only_on_rows[OF h]
  have r: "\<not> isl (generate_json_html_wp ?d)"
    by code_simp
  have c1: "generate_csv_html ''2026-01-01 10:00'' ?d =
              Inr (csv_page ''2026-01-01 10:00'' nav_items_csv (content_csv demo_fields demo_enum_values))"
    by (simp add: generate_csv_html_def getitem_def and_then_def)
  have c2: "generate_csv_html ''2026-01-01 10:01'' ?d' =
              Inr (csv_page ''2026-01-01 10:01'' nav_items_csv (content_csv demo_fields demo_enum_values))"
    by (simp add: generate_csv_html_def getitem_def and_then_def)
  have n: "''2026-01-01 10:00'' \<noteq> ''2026-01-01 10:01''" by simp
  note q = conjunct2[OF conjunct2[OF conjunct2[OF t]], rule_format]
  have 4: "csv_page ''2026-01-01 10:00'' nav_items_csv (content_csv demo_fields demo_enum_values)
     \<noteq> csv_page ''2026-01-01 10:01'' nav_items_csv (content_csv demo_fields demo_enum_values)"
    by (rule q[OF conjI[OF c1 conjI[OF c2 n]]])
  from conjunct1[OF t] conjunct1[OF conjunct2[OF t]] r 4 show ?thesis
    by (intro conjI)
qed

section \<open>Termination of the two recursions (claim C9)\<close>



















end
